theory Spec2Isabelle
  imports Main "HOL-Library.Word" "HOL-Library.Char_ord" "HOL-Library.List_Lexorder"
begin

section \<open>Label vocabulary and fixed tables\<close>

text \<open>
  The munger of \<^verbatim>\<open>mungegithub/mungers/milestone-maintainer.go\<close>.  Label names are Go
  strings (byte sequences), modelled as \<^typ>\<open>string\<close>.  A Go \<^verbatim>\<open>map[string]string\<close> with
  fixed content is an association list with distinct keys, read through \<^const>\<open>map_of\<close>.
\<close>

definition milestoneNotifierName :: string where
  "milestoneNotifierName = ''MilestoneNotifier''"

definition milestoneModeDev :: string where "milestoneModeDev = ''dev''"
definition milestoneModeSlush :: string where "milestoneModeSlush = ''slush''"
definition milestoneModeFreeze :: string where "milestoneModeFreeze = ''freeze''"

definition milestoneLabelsIncompleteLabel :: string where
  "milestoneLabelsIncompleteLabel = ''milestone/incomplete-labels''"
definition milestoneNeedsApprovalLabel :: string where
  "milestoneNeedsApprovalLabel = ''milestone/needs-approval''"
definition milestoneNeedsAttentionLabel :: string where
  "milestoneNeedsAttentionLabel = ''milestone/needs-attention''"
definition milestoneRemovedLabel :: string where
  "milestoneRemovedLabel = ''milestone/removed''"

definition statusApprovedLabel :: string where
  "statusApprovedLabel = ''status/approved-for-milestone''"
definition statusInProgressLabel :: string where
  "statusInProgressLabel = ''status/in-progress''"

definition blockerLabel :: string where
  "blockerLabel = ''priority/critical-urgent''"

definition sigLabelPrefix :: string where "sigLabelPrefix = ''sig/''"

definition milestoneStateLabels :: "string list" where
  "milestoneStateLabels =
     [milestoneLabelsIncompleteLabel, milestoneNeedsApprovalLabel,
      milestoneNeedsAttentionLabel, milestoneRemovedLabel]"

definition kindMap :: "(string \<times> string) list" where
  "kindMap =
     [(''kind/bug'', ''Fixes a bug discovered during the current release.''),
      (''kind/feature'', ''New functionality.''),
      (''kind/cleanup'', ''Adding tests, refactoring, fixing old bugs.'')]"

definition priorityMap :: "(string \<times> string) list" where
  "priorityMap =
     [(blockerLabel, ''Never automatically move out of a release milestone; continually escalate to contributor and SIG through all available channels.''),
      (''priority/important-soon'', ''Escalate to the issue owners and SIG owner; move out of milestone after several unsuccessful escalation attempts.''),
      (''priority/important-longterm'', ''Escalate to the issue owners; move out of the milestone after 1 attempt.'')]"

section \<open>Label classifier\<close>

text \<open>\<^verbatim>\<open>strings.HasPrefix\<close> and \<^verbatim>\<open>strings.Join\<close>.\<close>

definition hasPrefix :: "string \<Rightarrow> string \<Rightarrow> bool" where
  "hasPrefix s p = (take (length p) s = p)"

fun join :: "string list \<Rightarrow> string \<Rightarrow> string" where
  "join [] sep = []"
| "join [x] sep = x"
| "join (x # y # ys) sep = x @ sep @ join (y # ys) sep"

text \<open>\<^verbatim>\<open>quoteLabel\<close>: a label name as inline code, the empty name unchanged.\<close>

definition quoteLabel :: "string \<Rightarrow> string" where
  "quoteLabel label = (if length label > 0 then ''`'' @ label @ ''`'' else label)"

text \<open>
  \<^verbatim>\<open>uniqueLabelName\<close>.  The loop carries \<^verbatim>\<open>labelName\<close>; the early return yields the empty
  name and the error.  The result is the pair the Go function returns, the error as an
  option.
\<close>

fun uniqueLabelNameLoop ::
  "string list \<Rightarrow> (string \<times> string) list \<Rightarrow> string \<Rightarrow> string \<times> string option" where
  "uniqueLabelNameLoop [] labelMap labelName = (labelName, None)"
| "uniqueLabelNameLoop (label # rest) labelMap labelName =
     (if map_of labelMap label \<noteq> None then
        (if length labelName = 0 then uniqueLabelNameLoop rest labelMap label
         else ([], Some ''Found more than one matching label''))
      else uniqueLabelNameLoop rest labelMap labelName)"

definition uniqueLabelName ::
  "string list \<Rightarrow> (string \<times> string) list \<Rightarrow> string \<times> string option" where
  "uniqueLabelName labels labelMap = uniqueLabelNameLoop labels labelMap []"

text \<open>\<^verbatim>\<open>sigLabelNames\<close>: the labels with the \<^verbatim>\<open>sig/\<close> prefix, in the order of the issue.\<close>

fun sigLabelNames :: "string list \<Rightarrow> string list" where
  "sigLabelNames [] = []"
| "sigLabelNames (label # rest) =
     (if hasPrefix label sigLabelPrefix then label # sigLabelNames rest
      else sigLabelNames rest)"

text \<open>
  \<^verbatim>\<open>formatLabelString\<close>.  The keys are quoted, then sorted with \<^verbatim>\<open>sort.Strings\<close> (bytewise
  lexicographic order, which is the order of \<^typ>\<open>string\<close> here), so the iteration order
  of the Go map does not matter.  On an empty map \<^verbatim>\<open>maxIndex\<close> is \<open>-1\<close> and the slice
  expression panics: that is \<^const>\<open>None\<close>.
\<close>

definition formatLabelString :: "(string \<times> string) list \<Rightarrow> string option" where
  "formatLabelString labelMap =
     (let labelList = sort (map (\<lambda>kv. quoteLabel (fst kv)) labelMap);
          maxIndex = int (length labelList) - 1
      in if maxIndex = 0 then Some (labelList ! 0)
         else if maxIndex < 0 then None
         else Some (join (take (nat maxIndex) labelList) '', '' @ '' or ''
                    @ labelList ! nat maxIndex))"

definition kindError :: "string \<Rightarrow> string" where
  "kindError kindLabels = ''_**kind**_: Must specify exactly one of '' @ kindLabels @ ''.''"

definition priorityError :: "string \<Rightarrow> string" where
  "priorityError priorityLabels =
     ''_**priority**_: Must specify exactly one of '' @ priorityLabels @ ''.''"

definition sigError :: string where
  "sigError = ''_**sig owner**_: Must specify at least one label prefixed with `''
              @ sigLabelPrefix @ ''`.''"

text \<open>
  \<^verbatim>\<open>checkLabels\<close>: kind label, priority label, sig labels and the list of errors.
  \<^verbatim>\<open>formatLabelString\<close> is applied to the two fixed tables only, where it does not panic
  (\<open>formatLabelString_kindMap\<close>, \<open>formatLabelString_priorityMap\<close> below).
\<close>

definition checkLabels ::
  "string list \<Rightarrow> string \<times> string \<times> string list \<times> string list" where
  "checkLabels labels =
     (let labelErrors0 = [];
          (kindLabel, err) = uniqueLabelName labels kindMap;
          labelErrors1 =
            (if err \<noteq> None \<or> length kindLabel = 0
             then labelErrors0 @ [kindError (the (formatLabelString kindMap))]
             else labelErrors0);
          (priorityLabel, err') = uniqueLabelName labels priorityMap;
          labelErrors2 =
            (if err' \<noteq> None \<or> length priorityLabel = 0
             then labelErrors1 @ [priorityError (the (formatLabelString priorityMap))]
             else labelErrors1);
          sigLabels = sigLabelNames labels;
          labelErrors3 =
            (if length sigLabels = 0 then labelErrors2 @ [sigError] else labelErrors2)
      in (kindLabel, priorityLabel, sigLabels, labelErrors3))"

section \<open>Time\<close>

text \<open>
  A \<^verbatim>\<open>time.Time\<close> is an instant, counted here in nanoseconds on the integer line (Go's
  range of instants is far wider than any duration).  A \<^verbatim>\<open>time.Duration\<close> is a signed
  64-bit count of nanoseconds.  \<^verbatim>\<open>Time.Add\<close> moves an instant; \<^verbatim>\<open>Time.Sub\<close> saturates at
  the least and greatest duration, as the Go library documents; \<^verbatim>\<open>time.Since t\<close> is
  \<^verbatim>\<open>time.Now().Sub(t)\<close>, the clock reading being an argument here.  Negation and
  comparison of durations are those of \<^verbatim>\<open>int64\<close>.
\<close>

type_synonym time = int
type_synonym duration = "64 word"

definition maxDuration :: int where "maxDuration = 2 ^ 63 - 1"
definition minDuration :: int where "minDuration = - (2 ^ 63)"

definition timeAdd :: "time \<Rightarrow> duration \<Rightarrow> time" where
  "timeAdd t d = t + sint d"

definition timeSub :: "time \<Rightarrow> time \<Rightarrow> duration" where
  "timeSub t u =
     (if t - u > maxDuration then word_of_int maxDuration
      else if t - u < minDuration then word_of_int minDuration
      else word_of_int (t - u))"

definition since :: "time \<Rightarrow> time \<Rightarrow> duration" where
  "since now t = timeSub now t"

text \<open>
  The wall clock is read at four places of a cycle; each reading is an input:
  \<^verbatim>\<open>time.Now()\<close> passed as the default start, \<^verbatim>\<open>time.Since\<close> in
  \<^verbatim>\<open>gracePeriodRemaining\<close>, \<^verbatim>\<open>time.Since\<close> of the last update, and \<^verbatim>\<open>time.Since\<close> of the
  comment's creation.
\<close>

record clock =
  nowDefaultStart :: time
  nowGrace :: time
  nowUpdate :: time
  nowComment :: time

section \<open>The munged object and its collaborators\<close>

text \<open>
  Modelled from the spec: the label-change events of the issue tracker and the matcher
  \<^verbatim>\<open>event.And{AddLabel, LabelName(labelName), Actor(botName)}\<close> of package
  \<^verbatim>\<open>matchers/event\<close> (not in this file): an event adds a label or not, names a label and
  an actor, and may carry its creation time.
\<close>

record event =
  evAddLabel :: bool
  evLabelName :: string
  evActor :: string
  evCreatedAt :: "time option"

definition labelMatcher :: "string \<Rightarrow> string \<Rightarrow> event \<Rightarrow> bool" where
  "labelMatcher labelName botName ev =
     (evAddLabel ev \<and> evLabelName ev = labelName \<and> evActor ev = botName)"

text \<open>
  Modelled from the spec: a notification is source name, title and body, and
  \<^verbatim>\<open>Notification.Equal\<close> is equality of the three.  A comment carries its text and
  may carry its creation time.
\<close>

record notification =
  nName :: string
  nArguments :: string
  nContext :: string

record comment =
  cBody :: string
  cCreatedAt :: "time option"

definition NewNotification :: "string \<Rightarrow> string \<Rightarrow> string \<Rightarrow> notification" where
  "NewNotification name arguments context =
     \<lparr>nName = name, nArguments = arguments, nContext = context\<rparr>"

definition notificationEqual :: "notification \<Rightarrow> notification \<Rightarrow> bool" where
  "notificationEqual n o' = (nName n = nName o' \<and> nArguments n = nArguments o'
                              \<and> nContext n = nContext o')"

text \<open>
  What \<^verbatim>\<open>github.MungeObject\<close> answers during a cycle: the fallible reads are options
  (\<^const>\<open>None\<close> when the call reports failure).  \<^verbatim>\<open>obj_lastModification\<close> is the result of
  \<^verbatim>\<open>findLastModificationTime\<close>, \<^verbatim>\<open>obj_mentions\<close> the joined mentions of the issue's
  users.  Label names of the issue are non-nil.
\<close>

record mungeObject =
  obj_isPR :: bool
  obj_state :: "string option"
  obj_labels :: "string list"
  obj_releaseMilestone :: "string option"
  obj_events :: "event list option"
  obj_comments :: "comment list option"
  obj_lastModification :: "time option"
  obj_mentions :: string

definition HasLabel :: "mungeObject \<Rightarrow> string \<Rightarrow> bool" where
  "HasLabel obj name = (name \<in> set (obj_labels obj))"

text \<open>The mutations a cycle can ask of the issue tracker.\<close>

datatype action =
  AddLabel string | RemoveLabel string | DeleteComment comment
  | PostNotification notification | ClearMilestone

text \<open>
  The collaborators outside this file, as parameters: \<^verbatim>\<open>durationToMaxDays\<close>,
  \<^verbatim>\<open>Time.Format("Jan 2")\<close>, \<^verbatim>\<open>c.ParseNotification\<close> (of a possibly nil comment), the
  matcher \<^verbatim>\<open>c.MungerNotificationName(milestoneNotifierName, botName)\<close>, and which
  mutation calls return an error.
\<close>

record env =
  durationToMaxDays :: "duration \<Rightarrow> string"
  formatJan2 :: "time \<Rightarrow> string"
  ParseNotification :: "comment option \<Rightarrow> notification option"
  notificationMatcher :: "string \<Rightarrow> comment \<Rightarrow> bool"
  fails :: "action \<Rightarrow> bool"

section \<open>Grace period calculator\<close>

text \<open>\<^verbatim>\<open>GetLast\<close> of a filtered list: the last element, nil when there is none.\<close>

definition GetLast :: "'a list \<Rightarrow> 'a option" where
  "GetLast xs = (if xs = [] then None else Some (last xs))"

definition labelLastCreatedAt :: "mungeObject \<Rightarrow> string \<Rightarrow> string \<Rightarrow> time option" where
  "labelLastCreatedAt obj botName labelName =
     (case obj_events obj of
        None \<Rightarrow> None
      | Some events \<Rightarrow>
          (case GetLast (filter (labelMatcher labelName botName) events) of
             Some lastAdded \<Rightarrow> evCreatedAt lastAdded
           | None \<Rightarrow> None))"

definition gracePeriodStart ::
  "mungeObject \<Rightarrow> string \<Rightarrow> string \<Rightarrow> time \<Rightarrow> time option" where
  "gracePeriodStart obj botName labelName defaultStart =
     (if \<not> HasLabel obj labelName then Some defaultStart
      else labelLastCreatedAt obj botName labelName)"

text \<open>
  \<^verbatim>\<open>gracePeriodRemaining\<close> returns a pointer and a flag; \<open>now\<close> is the clock reading of
  \<^verbatim>\<open>time.Since\<close>.
\<close>

definition gracePeriodRemaining ::
  "mungeObject \<Rightarrow> string \<Rightarrow> string \<Rightarrow> duration \<Rightarrow> time \<Rightarrow> bool \<Rightarrow> time
     \<Rightarrow> duration option \<times> bool" where
  "gracePeriodRemaining obj botName labelName gracePeriod defaultStart isBlocker now =
     (if isBlocker then (None, True)
      else case gracePeriodStart obj botName labelName defaultStart of
             None \<Rightarrow> (None, False)
           | Some start \<Rightarrow> (Some (- since now (timeAdd start gracePeriod)), True))"

section \<open>State resolver\<close>

text \<open>
  \<^verbatim>\<open>milestoneState\<close> is a Go \<^verbatim>\<open>int\<close>.  The named states are declared with \<^verbatim>\<open>iota\<close> in a
  constant block where four string constants come first, so they are 4 to 8, and the
  zero value of the type (the state of a fresh \<^verbatim>\<open>issueChangeConfig\<close>) is none of them.
\<close>

type_synonym milestoneState = int

definition milestoneCurrent :: milestoneState where "milestoneCurrent = 4"
definition milestoneNeedsLabeling :: milestoneState where "milestoneNeedsLabeling = 5"
definition milestoneNeedsApproval :: milestoneState where "milestoneNeedsApproval = 6"
definition milestoneNeedsAttention :: milestoneState where "milestoneNeedsAttention = 7"
definition milestoneNeedsRemoval :: milestoneState where "milestoneNeedsRemoval = 8"

record milestoneStateConfig =
  cfg_label :: string
  cfg_title :: string
  cfg_warnOnInterval :: bool
  cfg_notifySIGs :: bool

text \<open>
  \<^verbatim>\<open>milestoneStateConfigs[state]\<close>: a Go map read yields the zero value for a key that
  is not there.
\<close>

definition milestoneStateConfigs :: "milestoneState \<Rightarrow> milestoneStateConfig" where
  "milestoneStateConfigs st =
     (if st = milestoneCurrent then
        \<lparr>cfg_label = [], cfg_title = ''Milestone Issue **Current**'',
         cfg_warnOnInterval = False, cfg_notifySIGs = False\<rparr>
      else if st = milestoneNeedsLabeling then
        \<lparr>cfg_label = milestoneLabelsIncompleteLabel,
         cfg_title = ''Milestone Labels **Incomplete**'',
         cfg_warnOnInterval = True, cfg_notifySIGs = False\<rparr>
      else if st = milestoneNeedsApproval then
        \<lparr>cfg_label = milestoneNeedsApprovalLabel,
         cfg_title = ''Milestone Issue **Needs Approval**'',
         cfg_warnOnInterval = True, cfg_notifySIGs = True\<rparr>
      else if st = milestoneNeedsAttention then
        \<lparr>cfg_label = milestoneNeedsAttentionLabel,
         cfg_title = ''Milestone Issue **Needs Attention**'',
         cfg_warnOnInterval = True, cfg_notifySIGs = True\<rparr>
      else if st = milestoneNeedsRemoval then
        \<lparr>cfg_label = milestoneRemovedLabel, cfg_title = ''Milestone **Removed**'',
         cfg_warnOnInterval = False, cfg_notifySIGs = True\<rparr>
      else
        \<lparr>cfg_label = [], cfg_title = [], cfg_warnOnInterval = False,
         cfg_notifySIGs = False\<rparr>)"

record MilestoneMaintainer =
  botName :: string
  activeMilestone :: string
  mode :: string
  warningInterval :: duration
  labelGracePeriod :: duration
  approvalGracePeriod :: duration
  slushUpdateInterval :: duration
  freezeUpdateInterval :: duration
  freezeDate :: string

definition updateInterval :: "MilestoneMaintainer \<Rightarrow> duration" where
  "updateInterval m =
     (if mode m = milestoneModeSlush then slushUpdateInterval m
      else if mode m = milestoneModeFreeze then freezeUpdateInterval m
      else 0)"

text \<open>
  The values of \<^verbatim>\<open>templateArguments\<close> (a \<^verbatim>\<open>map[string]interface{}\<close>): booleans, strings
  and string slices.
\<close>

datatype tvalue = VBool bool | VString string | VStrings "string list"

record issueChangeConfig =
  state :: milestoneState
  enabledSections :: "string set"
  sigLabels :: "string list"
  templateArguments :: "string \<rightharpoonup> tvalue"

definition mapGet :: "(string \<times> string) list \<Rightarrow> string \<Rightarrow> string" where
  "mapGet labelMap k = (case map_of labelMap k of Some v \<Rightarrow> v | None \<Rightarrow> [])"

definition enableSection :: "issueChangeConfig \<Rightarrow> string \<Rightarrow> issueChangeConfig" where
  "enableSection icc sectionName =
     icc\<lparr>enabledSections := insert sectionName (enabledSections icc)\<rparr>"

definition summarizeLabels ::
  "issueChangeConfig \<Rightarrow> string \<Rightarrow> string \<Rightarrow> string list \<Rightarrow> issueChangeConfig" where
  "summarizeLabels icc kindLabel priorityLabel sigs =
     (let icc1 = enableSection icc ''summarizeLabels'';
          icc2 = icc1\<lparr>state := milestoneCurrent, sigLabels := sigs\<rparr>;
          quotedSigLabels = map quoteLabel sigs
      in icc2\<lparr>templateArguments := (templateArguments icc2)
           (''kindLabel'' \<mapsto> VString (quoteLabel kindLabel),
            ''kindDescription'' \<mapsto> VString (mapGet kindMap kindLabel),
            ''priorityLabel'' \<mapsto> VString (quoteLabel priorityLabel),
            ''priorityDescription'' \<mapsto> VString (mapGet priorityMap priorityLabel),
            ''sigLabels'' \<mapsto> VStrings quotedSigLabels)\<rparr>)"

definition warnUnapproved ::
  "env \<Rightarrow> issueChangeConfig \<Rightarrow> duration option \<Rightarrow> string \<Rightarrow> issueChangeConfig" where
  "warnUnapproved e icc removeAfter milestone =
     (let icc1 = (enableSection icc ''warnUnapproved'')\<lparr>state := milestoneNeedsApproval\<rparr>;
          warning =
            (case removeAfter of
               None \<Rightarrow> []
             | Some r \<Rightarrow> '' If the label is not applied within '' @ durationToMaxDays e r
                 @ '', the issue will be moved out of the '' @ milestone @ '' milestone.'')
      in icc1\<lparr>templateArguments :=
                (templateArguments icc1)(''unapprovedRemovalWarning'' \<mapsto> VString warning)\<rparr>)"

definition removeUnapproved :: "issueChangeConfig \<Rightarrow> issueChangeConfig" where
  "removeUnapproved icc =
     (enableSection icc ''removeUnapproved'')\<lparr>state := milestoneNeedsRemoval\<rparr>"

definition removeNonBlocker :: "issueChangeConfig \<Rightarrow> issueChangeConfig" where
  "removeNonBlocker icc =
     (enableSection icc ''removeNonBlocker'')\<lparr>state := milestoneNeedsRemoval\<rparr>"

definition warnMissingInProgress :: "issueChangeConfig \<Rightarrow> issueChangeConfig" where
  "warnMissingInProgress icc =
     (enableSection icc ''warnMissingInProgress'')\<lparr>state := milestoneNeedsAttention\<rparr>"

definition warnUpdateRequired ::
  "env \<Rightarrow> issueChangeConfig \<Rightarrow> time \<Rightarrow> issueChangeConfig" where
  "warnUpdateRequired e icc lastUpdated =
     (let icc1 = (enableSection icc ''warnUpdateRequired'')\<lparr>state := milestoneNeedsAttention\<rparr>
      in icc1\<lparr>templateArguments :=
                (templateArguments icc1)(''lastUpdated'' \<mapsto> VString (formatJan2 e lastUpdated))\<rparr>)"

definition warnIncompleteLabels ::
  "env \<Rightarrow> issueChangeConfig \<Rightarrow> duration option \<Rightarrow> string list \<Rightarrow> string
     \<Rightarrow> issueChangeConfig" where
  "warnIncompleteLabels e icc removeAfter labelErrors milestone =
     (let icc1 = (enableSection icc ''warnIncompleteLabels'')\<lparr>state := milestoneNeedsLabeling\<rparr>;
          warning =
            (case removeAfter of
               None \<Rightarrow> []
             | Some r \<Rightarrow> '' If the required changes are not made within ''
                 @ durationToMaxDays e r
                 @ '', the issue will be moved out of the '' @ milestone @ '' milestone.'')
      in icc1\<lparr>templateArguments := (templateArguments icc1)
           (''incompleteLabelsRemovalWarning'' \<mapsto> VString warning,
            ''labelErrors'' \<mapsto> VStrings labelErrors)\<rparr>)"

definition removeIncompleteLabels ::
  "issueChangeConfig \<Rightarrow> string list \<Rightarrow> issueChangeConfig" where
  "removeIncompleteLabels icc labelErrors =
     (let icc1 = (enableSection icc ''removeIncompleteLabels'')\<lparr>state := milestoneNeedsRemoval\<rparr>
      in icc1\<lparr>templateArguments :=
                (templateArguments icc1)(''labelErrors'' \<mapsto> VStrings labelErrors)\<rparr>)"

text \<open>
  The fresh configuration of \<^verbatim>\<open>issueChangeConfig\<close>: no section, the zero state, and the
  arguments every message may use.
\<close>

definition newIssueChangeConfig :: "env \<Rightarrow> MilestoneMaintainer \<Rightarrow> issueChangeConfig" where
  "newIssueChangeConfig e m =
     \<lparr>state = 0, enabledSections = {}, sigLabels = [],
      templateArguments =
        [''approvalGracePeriod'' \<mapsto> VString (durationToMaxDays e (approvalGracePeriod m)),
         ''approvedLabel'' \<mapsto> VString (quoteLabel statusApprovedLabel),
         ''blockerLabel'' \<mapsto> VString (quoteLabel blockerLabel),
         ''freezeDate'' \<mapsto> VString (freezeDate m),
         ''inProgressLabel'' \<mapsto> VString (quoteLabel statusInProgressLabel),
         ''labelGracePeriod'' \<mapsto> VString (durationToMaxDays e (labelGracePeriod m)),
         ''milestone'' \<mapsto> VString (activeMilestone m @ '' milestone''),
         ''mode'' \<mapsto> VString (mode m),
         ''updateInterval'' \<mapsto> VString (durationToMaxDays e (updateInterval m))]\<rparr>"

text \<open>
  \<^verbatim>\<open>issueChangeConfig\<close>: \<^const>\<open>None\<close> is the nil result ("no action should be taken").
  Comparisons of durations are signed.
\<close>

definition issueChangeConfig ::
  "env \<Rightarrow> clock \<Rightarrow> MilestoneMaintainer \<Rightarrow> mungeObject \<Rightarrow> issueChangeConfig option" where
  "issueChangeConfig e clk m obj =
     (let icc = newIssueChangeConfig e m;
          isBlocker = HasLabel obj blockerLabel;
          (kind, priority, sigs, labelErrors) = checkLabels (obj_labels obj)
      in if length labelErrors = 0 then
           (let icc = summarizeLabels icc kind priority sigs
            in if \<not> HasLabel obj statusApprovedLabel then
                 (if isBlocker then Some (warnUnapproved e icc None (activeMilestone m))
                  else
                    (case gracePeriodRemaining obj (botName m) milestoneNeedsApprovalLabel
                            (approvalGracePeriod m) (nowDefaultStart clk) False (nowGrace clk) of
                       (removeAfter, ok) \<Rightarrow>
                         if \<not> ok then None
                         else if removeAfter = None \<or> 0 \<le> sint (the removeAfter)
                         then Some (warnUnapproved e icc removeAfter (activeMilestone m))
                         else Some (removeUnapproved icc)))
               else if mode m = milestoneModeDev then Some icc
               else if mode m = milestoneModeFreeze \<and> \<not> isBlocker then
                 Some (removeNonBlocker icc)
               else
                 (let icc = (if \<not> HasLabel obj statusInProgressLabel
                             then warnMissingInProgress icc else icc)
                  in if \<not> isBlocker then Some (enableSection icc ''warnNonBlockerRemoval'')
                     else if 0 < sint (updateInterval m) then
                       (case obj_lastModification obj of
                          None \<Rightarrow> None
                        | Some lastUpdateTime \<Rightarrow>
                            (let durationSinceUpdate = since (nowUpdate clk) lastUpdateTime;
                                 icc = (if sint (updateInterval m) < sint durationSinceUpdate
                                        then warnUpdateRequired e icc lastUpdateTime else icc)
                             in Some (enableSection icc ''warnUpdateInterval'')))
                     else Some icc))
         else
           (case gracePeriodRemaining obj (botName m) milestoneLabelsIncompleteLabel
                   (labelGracePeriod m) (nowDefaultStart clk) isBlocker (nowGrace clk) of
              (removeAfter, ok) \<Rightarrow>
                if \<not> ok then None
                else if removeAfter = None \<or> 0 \<le> sint (the removeAfter)
                then Some (warnIncompleteLabels e icc removeAfter labelErrors (activeMilestone m))
                else Some (removeIncompleteLabels icc labelErrors)))"

section \<open>Notification renderer\<close>

text \<open>
  The part of Go's \<^verbatim>\<open>text/template\<close> that \<^verbatim>\<open>milestoneMessageTemplate\<close> uses, on a map of
  arguments: a missing key is false in \<^verbatim>\<open>if\<close>, prints as \<^verbatim>\<open><no value>\<close> and ranges
  over nothing; \<^verbatim>\<open>range\<close> over a boolean or a string is an execution error.
\<close>

fun truth :: "tvalue option \<Rightarrow> bool" where
  "truth None = False"
| "truth (Some (VBool b)) = b"
| "truth (Some (VString s)) = (s \<noteq> [])"
| "truth (Some (VStrings xs)) = (xs \<noteq> [])"

fun printv :: "tvalue option \<Rightarrow> string" where
  "printv None = ''<no value>''"
| "printv (Some (VBool b)) = (if b then ''true'' else ''false'')"
| "printv (Some (VString s)) = s"
| "printv (Some (VStrings xs)) = ''['' @ join xs '' '' @ '']''"

fun rangeOver :: "tvalue option \<Rightarrow> string list option" where
  "rangeOver None = Some []"
| "rangeOver (Some (VStrings xs)) = Some xs"
| "rangeOver (Some (VBool b)) = None"
| "rangeOver (Some (VString s)) = None"

text \<open>
  The sections of \<^verbatim>\<open>milestoneMessageTemplate\<close>, in the order of the template, with the
  white space that the trim markers \<^verbatim>\<open>{{-\<close> and \<^verbatim>\<open>-}}\<close> leave.  A section that is not
  enabled renders as the empty string.
\<close>

definition sectionWarnUnapproved :: "(string \<rightharpoonup> tvalue) \<Rightarrow> string option" where
  "sectionWarnUnapproved a =
     (if truth (a ''warnUnapproved'') then
        Some (''\<newline>**Action required**: This issue must have the '' @ printv (a ''approvedLabel'')
              @ '' label applied by a SIG maintainer.'' @ printv (a ''unapprovedRemovalWarning'')
              @ ''\<newline>'')
      else Some [])"

definition sectionRemoveUnapproved :: "(string \<rightharpoonup> tvalue) \<Rightarrow> string option" where
  "sectionRemoveUnapproved a =
     (if truth (a ''removeUnapproved'') then
        Some (''\<newline>**Important**: This issue was missing the '' @ printv (a ''approvedLabel'')
              @ '' label for more than '' @ printv (a ''approvalGracePeriod'') @ ''.\<newline>'')
      else Some [])"

definition sectionWarnMissingInProgress :: "(string \<rightharpoonup> tvalue) \<Rightarrow> string option" where
  "sectionWarnMissingInProgress a =
     (if truth (a ''warnMissingInProgress'') then
        Some (''\<newline>**Action required**: During code '' @ printv (a ''mode'')
              @ '', issues in the milestone should be in progress.\<newline>''
              @ ''If this issue is not being actively worked on, please remove it from the milestone.\<newline>''
              @ ''If it is being worked on, please add the '' @ printv (a ''inProgressLabel'')
              @ '' label so it can be tracked with other in-flight issues.\<newline>'')
      else Some [])"

definition sectionWarnUpdateRequired :: "(string \<rightharpoonup> tvalue) \<Rightarrow> string option" where
  "sectionWarnUpdateRequired a =
     (if truth (a ''warnUpdateRequired'') then
        Some (''\<newline>**Action Required**: This issue has not been updated since ''
              @ printv (a ''lastUpdated'') @ ''. Please provide an update.\<newline>'')
      else Some [])"

definition sectionWarnUpdateInterval :: "(string \<rightharpoonup> tvalue) \<Rightarrow> string option" where
  "sectionWarnUpdateInterval a =
     (if truth (a ''warnUpdateInterval'') then
        Some (''\<newline>**Note**: This issue is marked as '' @ printv (a ''blockerLabel'')
              @ '', and must be updated every '' @ printv (a ''updateInterval'')
              @ '' during code '' @ printv (a ''mode'') @ ''.\<newline>\<newline>Example update:\<newline>\<newline>''
              @ ''```\<newline>ACK.  In progress\<newline>ETA: DD/MM/YYYY\<newline>''
              @ ''Risks: Complicated fix required\<newline>```\<newline>'')
      else Some [])"

definition sectionWarnNonBlockerRemoval :: "(string \<rightharpoonup> tvalue) \<Rightarrow> string option" where
  "sectionWarnNonBlockerRemoval a =
     (if truth (a ''warnNonBlockerRemoval'') then
        Some (''\<newline>**Note**: If this issue is not resolved or labeled as ''
              @ printv (a ''blockerLabel'') @ '' by '' @ printv (a ''freezeDate'')
              @ '' it will be moved out of the '' @ printv (a ''milestone'') @ ''.\<newline>'')
      else Some [])"

definition sectionRemoveNonBlocker :: "(string \<rightharpoonup> tvalue) \<Rightarrow> string option" where
  "sectionRemoveNonBlocker a =
     (if truth (a ''removeNonBlocker'') then
        Some (''\<newline>**Important**: Code freeze is in effect and only issues with ''
              @ printv (a ''blockerLabel'') @ '' may remain in the '' @ printv (a ''milestone'')
              @ ''.\<newline>'')
      else Some [])"

definition sectionWarnIncompleteLabels :: "(string \<rightharpoonup> tvalue) \<Rightarrow> string option" where
  "sectionWarnIncompleteLabels a =
     (if truth (a ''warnIncompleteLabels'') then
        (case rangeOver (a ''labelErrors'') of
           None \<Rightarrow> None
         | Some errs \<Rightarrow>
             Some (''\<newline>**Action required**: This issue requires label changes.''
                   @ printv (a ''incompleteLabelsRemovalWarning'') @ ''\<newline>\<newline>''
                   @ concat (map (\<lambda>labelError. labelError @ ''\<newline>'') errs)))
      else Some [])"

definition sectionRemoveIncompleteLabels :: "(string \<rightharpoonup> tvalue) \<Rightarrow> string option" where
  "sectionRemoveIncompleteLabels a =
     (if truth (a ''removeIncompleteLabels'') then
        (case rangeOver (a ''labelErrors'') of
           None \<Rightarrow> None
         | Some errs \<Rightarrow>
             Some (''\<newline>**Important**: This issue was missing labels required for the ''
                   @ printv (a ''milestone'') @ '' for more than ''
                   @ printv (a ''labelGracePeriod'') @ '':\<newline>\<newline>''
                   @ concat (map (\<lambda>labelError. labelError @ ''\<newline>'') errs) @ ''\<newline>''))
      else Some [])"

text \<open>The closing panel of the issue's labels, open when \<^verbatim>\<open>onlySummary\<close> holds.\<close>

definition sectionSummarizeLabels :: "(string \<rightharpoonup> tvalue) \<Rightarrow> string option" where
  "sectionSummarizeLabels a =
     (if truth (a ''summarizeLabels'') then
        (case rangeOver (a ''sigLabels'') of
           None \<Rightarrow> None
         | Some sigs \<Rightarrow>
             Some (''<details'' @ (if truth (a ''onlySummary'') then '' open'' else [])
                   @ ''>\<newline><summary>Issue Labels</summary>\<newline>\<newline>- '' @ join sigs '' ''
                   @ '': Issue will be escalated to these SIGs if needed.\<newline>- ''
                   @ printv (a ''priorityLabel'') @ '': '' @ printv (a ''priorityDescription'')
                   @ ''\<newline>- '' @ printv (a ''kindLabel'') @ '': ''
                   @ printv (a ''kindDescription'') @ ''\<newline></details>''))
      else Some [])"

text \<open>
  \<^verbatim>\<open>approvers.GenerateTemplateOrFail\<close> on \<^verbatim>\<open>milestoneMessageTemplate\<close>: the sections in
  order, nil when the execution fails.
\<close>

definition milestoneMessageTemplate :: "(string \<rightharpoonup> tvalue) \<Rightarrow> string option" where
  "milestoneMessageTemplate a =
     map_option concat (those
       [sectionWarnUnapproved a, sectionRemoveUnapproved a, sectionWarnMissingInProgress a,
        sectionWarnUpdateRequired a, sectionWarnUpdateInterval a,
        sectionWarnNonBlockerRemoval a, sectionRemoveNonBlocker a,
        sectionWarnIncompleteLabels a, sectionRemoveIncompleteLabels a,
        sectionSummarizeLabels a])"

text \<open>
  \<^verbatim>\<open>messageBody\<close>: every enabled section becomes a true argument, except that a removal
  suppresses the sections whose name does not start with \<^verbatim>\<open>remove\<close>; then
  \<^verbatim>\<open>onlySummary\<close> is set.  \<open>messageArguments\<close> is the map the loop leaves.
\<close>

definition messageArguments :: "issueChangeConfig \<Rightarrow> (string \<rightharpoonup> tvalue)" where
  "messageArguments icc =
     (\<lambda>sectionName.
        if sectionName \<in> enabledSections icc
           \<and> (state icc \<noteq> milestoneNeedsRemoval \<or> hasPrefix sectionName ''remove'')
        then Some (VBool True) else templateArguments icc sectionName)
     (''onlySummary'' \<mapsto> VBool (state icc = milestoneCurrent))"

definition messageBody :: "issueChangeConfig \<Rightarrow> string option" where
  "messageBody icc = milestoneMessageTemplate (messageArguments icc)"

definition trimPrefix :: "string \<Rightarrow> string \<Rightarrow> string" where
  "trimPrefix s p = (if hasPrefix s p then drop (length p) s else s)"

definition sigMentions :: "issueChangeConfig \<Rightarrow> string" where
  "sigMentions icc =
     join (map (\<lambda>l. ''@kubernetes/sig-'' @ trimPrefix l sigLabelPrefix @ ''-bugs'')
             (sigLabels icc)) '' ''"

definition milestoneDetail :: string where
  \<open>milestoneDetail =
     ''<details>\<newline><summary>Help</summary>\<newline><ul>\<newline>''
     @ '' <li><a href="https://github.com/kubernetes/community/blob/master/contributors/devel/release/issues.md">Additional instructions</a></li>\<newline>''
     @ '' <li><a href="https://github.com/kubernetes/test-infra/blob/master/commands.md">Commands for setting labels</a></li>\<newline>''
     @ ''</ul>\<newline></details>\<newline>''\<close>

section \<open>Change applier\<close>

record issueChange =
  notification :: notification
  label :: string
  commentInterval :: "duration option"
  removeFromMilestone :: bool

definition issueChange ::
  "env \<Rightarrow> clock \<Rightarrow> MilestoneMaintainer \<Rightarrow> mungeObject \<Rightarrow> issueChange option" where
  "issueChange e clk m obj =
     (case issueChangeConfig e clk m obj of
        None \<Rightarrow> None
      | Some icc \<Rightarrow>
          (case messageBody icc of
             None \<Rightarrow> None
           | Some body \<Rightarrow>
               (let stateConfig = milestoneStateConfigs (state icc);
                    mentions0 = obj_mentions obj;
                    mentions =
                      (if cfg_notifySIGs stateConfig \<and> length (sigMentions icc) > 0
                       then mentions0 @ '' '' @ sigMentions icc else mentions0);
                    message = mentions @ ''\<newline>\<newline>'' @ body @ ''\<newline>'' @ milestoneDetail
                in Some \<lparr>notification =
                            NewNotification milestoneNotifierName (cfg_title stateConfig) message,
                          label = cfg_label stateConfig,
                          commentInterval =
                            (if cfg_warnOnInterval stateConfig then Some (warningInterval m)
                             else None),
                          removeFromMilestone = (state icc = milestoneNeedsRemoval)\<rparr>)))"

definition ignoreObject :: "mungeObject \<Rightarrow> string \<Rightarrow> bool" where
  "ignoreObject obj active =
     (if obj_isPR obj then True
      else if obj_state obj = Some ''closed'' then True
      else case obj_releaseMilestone obj of
             None \<Rightarrow> True
           | Some milestone \<Rightarrow>
               if length milestone = 0 then True else milestone \<noteq> active)"

definition latestNotificationComment ::
  "env \<Rightarrow> mungeObject \<Rightarrow> string \<Rightarrow> comment option \<times> bool" where
  "latestNotificationComment e obj bn =
     (case obj_comments obj of
        None \<Rightarrow> (None, False)
      | Some issueComments \<Rightarrow> (GetLast (filter (notificationMatcher e bn) issueComments), True))"

text \<open>\<open>now\<close> is the clock reading of \<^verbatim>\<open>time.Since\<close>.\<close>

definition notificationIsCurrent ::
  "env \<Rightarrow> notification \<Rightarrow> comment option \<Rightarrow> duration option \<Rightarrow> time \<Rightarrow> bool" where
  "notificationIsCurrent e n cmt interval now =
     (let oldNotification = ParseNotification e cmt;
          notificationsEqual =
            (case oldNotification of None \<Rightarrow> False | Some old \<Rightarrow> notificationEqual old n)
      in notificationsEqual
         \<and> (case interval of
               None \<Rightarrow> True
             | Some i \<Rightarrow>
                 (case cmt of
                    None \<Rightarrow> False
                  | Some c \<Rightarrow>
                      (case cCreatedAt c of
                         None \<Rightarrow> False
                       | Some created \<Rightarrow> sint (since now created) < sint i))))"

text \<open>
  The mutations are logged in the order of the calls, each with whether it succeeded.
  \<^verbatim>\<open>AddLabel\<close> and \<^verbatim>\<open>RemoveLabel\<close> also update the labels of the object, which
  \<^verbatim>\<open>HasLabel\<close> reads back.
\<close>

type_synonym trace = "(action \<times> bool) list"

fun removeOtherStateLabels ::
  "env \<Rightarrow> string \<Rightarrow> string list \<Rightarrow> mungeObject \<Rightarrow> trace \<Rightarrow> bool \<times> mungeObject \<times> trace" where
  "removeOtherStateLabels e labelName [] obj tr = (True, obj, tr)"
| "removeOtherStateLabels e labelName (stateLabel # rest) obj tr =
     (if stateLabel \<noteq> labelName \<and> HasLabel obj stateLabel then
        (if fails e (RemoveLabel stateLabel) then
           (False, obj, tr @ [(RemoveLabel stateLabel, False)])
         else removeOtherStateLabels e labelName rest
                (obj\<lparr>obj_labels := filter (\<lambda>l. l \<noteq> stateLabel) (obj_labels obj)\<rparr>)
                (tr @ [(RemoveLabel stateLabel, True)]))
      else removeOtherStateLabels e labelName rest obj tr)"

definition updateMilestoneStateLabel ::
  "env \<Rightarrow> mungeObject \<Rightarrow> string \<Rightarrow> bool \<times> mungeObject \<times> trace" where
  "updateMilestoneStateLabel e obj labelName =
     (if length labelName > 0 \<and> \<not> HasLabel obj labelName then
        (if fails e (AddLabel labelName) then (False, obj, [(AddLabel labelName, False)])
         else removeOtherStateLabels e labelName milestoneStateLabels
                (obj\<lparr>obj_labels := obj_labels obj @ [labelName]\<rparr>) [(AddLabel labelName, True)])
      else removeOtherStateLabels e labelName milestoneStateLabels obj [])"

text \<open>
  The comment step of \<^verbatim>\<open>Munge\<close> when the notification is not current: delete the old
  comment if there is one, then post.  The flag says whether the cycle goes on.
\<close>

definition replaceComment ::
  "env \<Rightarrow> notification \<Rightarrow> comment option \<Rightarrow> trace \<Rightarrow> bool \<times> trace" where
  "replaceComment e n cmt tr =
     (let (ok, tr1) =
            (case cmt of
               None \<Rightarrow> (True, tr)
             | Some c \<Rightarrow>
                 if fails e (DeleteComment c) then (False, tr @ [(DeleteComment c, False)])
                 else (True, tr @ [(DeleteComment c, True)]))
      in if \<not> ok then (False, tr1)
         else if fails e (PostNotification n) then (False, tr1 @ [(PostNotification n, False)])
         else (True, tr1 @ [(PostNotification n, True)]))"

text \<open>\<^verbatim>\<open>Munge\<close>: the mutation calls of one cycle on one object.\<close>

definition Munge :: "env \<Rightarrow> clock \<Rightarrow> MilestoneMaintainer \<Rightarrow> mungeObject \<Rightarrow> trace" where
  "Munge e clk m obj =
     (if ignoreObject obj (activeMilestone m) then []
      else case issueChange e clk m obj of
             None \<Rightarrow> []
           | Some change \<Rightarrow>
               (case updateMilestoneStateLabel e obj (label change) of
                  (ok, obj1, tr1) \<Rightarrow>
                    if \<not> ok then tr1
                    else
                      (case latestNotificationComment e obj1 (botName m) of
                         (cmt, ok') \<Rightarrow>
                           if \<not> ok' then tr1
                           else
                             (let (continue, tr2) =
                                    (if \<not> notificationIsCurrent e (notification change) cmt
                                            (commentInterval change) (nowComment clk)
                                     then replaceComment e (notification change) cmt tr1
                                     else (True, tr1))
                              in if \<not> continue then tr2
                                 else if removeFromMilestone change
                                 then tr2 @ [(ClearMilestone, \<not> fails e ClearMilestone)]
                                 else tr2))))"

section \<open>Example inputs\<close>

definition exampleObject :: mungeObject where
  "exampleObject =
     \<lparr>obj_isPR = False, obj_state = Some ''open'',
      obj_labels = [''kind/bug'', ''priority/important-soon'', ''sig/api''],
      obj_releaseMilestone = Some ''v1.9'', obj_events = Some [], obj_comments = Some [],
      obj_lastModification = Some 0, obj_mentions = ''@alice''\<rparr>"

definition exampleEnv :: env where
  "exampleEnv =
     \<lparr>durationToMaxDays = (\<lambda>d. ''6 days''), formatJan2 = (\<lambda>t. ''Nov 20''),
      ParseNotification = (\<lambda>c. None), notificationMatcher = (\<lambda>bn c. True),
      fails = (\<lambda>a. False)\<rparr>"

definition exampleClock :: clock where
  "exampleClock =
     \<lparr>nowDefaultStart = 108000000000000, nowGrace = 108000000000000,
      nowUpdate = 108000000000000, nowComment = 108000000000000\<rparr>"

definition exampleMaintainer :: MilestoneMaintainer where
  "exampleMaintainer =
     \<lparr>botName = ''k8s-merge-robot'', activeMilestone = ''v1.9'', mode = milestoneModeDev,
      warningInterval = 86400000000000, labelGracePeriod = 259200000000000,
      approvalGracePeriod = 604800000000000, slushUpdateInterval = 259200000000000,
      freezeUpdateInterval = 86400000000000, freezeDate = ''Nov 22''\<rparr>"

section \<open>Kinds of mutation\<close>

fun isLabelAction :: "action \<Rightarrow> bool" where
  "isLabelAction (AddLabel l) = True"
| "isLabelAction (RemoveLabel l) = True"
| "isLabelAction a = False"

fun isCommentAction :: "action \<Rightarrow> bool" where
  "isCommentAction (DeleteComment c) = True"
| "isCommentAction (PostNotification n) = True"
| "isCommentAction a = False"

definition exampleComment :: comment where
  "exampleComment =
     \<lparr>cBody = ''@alice\<newline>\<newline><details open>\<newline><summary>Issue Labels</summary>\<newline>\<newline>''
        @ ''- `sig/api`: Issue will be escalated to these SIGs if needed.\<newline>''
        @ ''- `priority/important-soon`: Escalate to the issue owners and SIG owner; move out of milestone after several unsuccessful escalation attempts.\<newline>''
        @ ''- `kind/bug`: Fixes a bug discovered during the current release.\<newline></details>\<newline>''
        @ milestoneDetail,
      cCreatedAt = Some 90000000000000\<rparr>"

(*DEFS*)
section \<open>Properties of the label classifier\<close>

lemma formatLabelString_kindMap:
  "formatLabelString kindMap = Some ''`kind/bug`, `kind/cleanup` or `kind/feature`''"
  by (simp add: formatLabelString_def kindMap_def quoteLabel_def less_eq_char_def less_char_def)

lemma formatLabelString_priorityMap:
  "formatLabelString priorityMap =
     Some ''`priority/critical-urgent`, `priority/important-longterm` or `priority/important-soon`''"
  by (simp add: formatLabelString_def priorityMap_def blockerLabel_def quoteLabel_def
      less_eq_char_def less_char_def)

lemma uniqueLabelNameLoop_filter:
  assumes "[] \<notin> fst ` set labelMap"
  shows "uniqueLabelNameLoop ls labelMap acc =
     (case filter (\<lambda>l. l \<in> fst ` set labelMap) ls of
        [] \<Rightarrow> (acc, None)
      | x # xs \<Rightarrow> (if acc = [] \<and> xs = [] then (x, None)
                   else ([], Some ''Found more than one matching label'')))"
proof (induction ls arbitrary: acc)
  case Nil
  then show ?case by simp
next
  case (Cons l ls)
  have key: "(map_of labelMap l \<noteq> None) = (l \<in> fst ` set labelMap)"
    by (simp add: map_of_eq_None_iff)
  show ?case
  proof (cases "l \<in> fst ` set labelMap")
    case True
    with assms have "l \<noteq> []" by force
    with True key Cons.IH [of l] show ?thesis
      by (auto split: list.splits)
  next
    case False
    with key Cons.IH [of acc] show ?thesis by simp
  qed
qed

lemma uniqueLabelName_filter:
  assumes "[] \<notin> fst ` set labelMap"
  shows "uniqueLabelName ls labelMap =
     (case filter (\<lambda>l. l \<in> fst ` set labelMap) ls of
        [] \<Rightarrow> ([], None)
      | [x] \<Rightarrow> (x, None)
      | x # y # ys \<Rightarrow> ([], Some ''Found more than one matching label''))"
  unfolding uniqueLabelName_def uniqueLabelNameLoop_filter [OF assms]
  by (simp split: list.splits)

lemma sigLabelNames_filter:
  "sigLabelNames ls = filter (\<lambda>l. hasPrefix l sigLabelPrefix) ls"
  by (induction ls) simp_all

lemma kindMap_keys: "[] \<notin> fst ` set kindMap"
  by (simp add: kindMap_def)

lemma priorityMap_keys: "[] \<notin> fst ` set priorityMap"
  by (simp add: priorityMap_def blockerLabel_def)

lemma uniqueLabelName_ok:
  assumes "[] \<notin> fst ` set labelMap"
  shows "(snd (uniqueLabelName ls labelMap) \<noteq> None \<or> length (fst (uniqueLabelName ls labelMap)) = 0)
     = (length (filter (\<lambda>l. l \<in> fst ` set labelMap) ls) \<noteq> 1)"
proof -
  have "\<And>x. x \<in> set (filter (\<lambda>l. l \<in> fst ` set labelMap) ls) \<Longrightarrow> x \<noteq> []"
    using assms by force
  then show ?thesis
    unfolding uniqueLabelName_filter [OF assms]
    by (cases "filter (\<lambda>l. l \<in> fst ` set labelMap) ls") (auto split: list.splits)
qed


lemma kindErrorText:
  "kindError (the (formatLabelString kindMap)) =
     ''_**kind**_: Must specify exactly one of `kind/bug`, `kind/cleanup` or `kind/feature`.''"
  by (simp add: formatLabelString_kindMap kindError_def)

lemma priorityErrorText:
  "priorityError (the (formatLabelString priorityMap)) =
     ''_**priority**_: Must specify exactly one of `priority/critical-urgent`, `priority/important-longterm` or `priority/important-soon`.''"
  by (simp add: formatLabelString_priorityMap priorityError_def)

lemma sigErrorText:
  "sigError = ''_**sig owner**_: Must specify at least one label prefixed with `sig/`.''"
  by (simp add: sigError_def sigLabelPrefix_def)

lemma checkLabels_unfold:
  "checkLabels ls =
     (fst (uniqueLabelName ls kindMap), fst (uniqueLabelName ls priorityMap),
      filter (\<lambda>l. hasPrefix l sigLabelPrefix) ls,
      (if length (filter (\<lambda>l. l \<in> fst ` set kindMap) ls) = 1 then []
       else [kindError (the (formatLabelString kindMap))])
      @ (if length (filter (\<lambda>l. l \<in> fst ` set priorityMap) ls) = 1 then []
         else [priorityError (the (formatLabelString priorityMap))])
      @ (if filter (\<lambda>l. hasPrefix l sigLabelPrefix) ls = [] then [sigError] else []))"
proof -
  obtain kl ke where k: "uniqueLabelName ls kindMap = (kl, ke)"
    by (cases "uniqueLabelName ls kindMap")
  obtain pl pe where p: "uniqueLabelName ls priorityMap = (pl, pe)"
    by (cases "uniqueLabelName ls priorityMap")
  have kc: "(ke \<noteq> None \<or> length kl = 0)
      = (length (filter (\<lambda>l. l \<in> fst ` set kindMap) ls) \<noteq> 1)"
    using uniqueLabelName_ok [OF kindMap_keys, of ls] by (simp add: k)
  have pc: "(pe \<noteq> None \<or> length pl = 0)
      = (length (filter (\<lambda>l. l \<in> fst ` set priorityMap) ls) \<noteq> 1)"
    using uniqueLabelName_ok [OF priorityMap_keys, of ls] by (simp add: p)
  show ?thesis
    unfolding checkLabels_def Let_def k p prod.case sigLabelNames_filter kc pc fst_conv
    by simp
qed

text \<open>
  Claim C2.  When the labels hold exactly one key of \<open>kindMap\<close>, exactly one key of
  \<open>priorityMap\<close> and at least one label with the prefix \<^verbatim>\<open>sig/\<close>, \<^verbatim>\<open>checkLabels\<close> returns
  these labels and no error.  In general the error list has, in this order, one
  message for the kind when the number of kind labels is not one (the same message
  for none and for several), one for the priority likewise, and one "at least one"
  message when no label has the prefix.
\<close>

theorem checkLabels_classification:
  "(\<forall>k p. filter (\<lambda>l. l \<in> fst ` set kindMap) ls = [k]
        \<and> filter (\<lambda>l. l \<in> fst ` set priorityMap) ls = [p]
        \<and> filter (\<lambda>l. hasPrefix l sigLabelPrefix) ls \<noteq> []
      \<longrightarrow> checkLabels ls = (k, p, filter (\<lambda>l. hasPrefix l sigLabelPrefix) ls, []))
   \<and> snd (snd (snd (checkLabels ls))) =
      (if length (filter (\<lambda>l. l \<in> fst ` set kindMap) ls) = 1 then []
       else [''_**kind**_: Must specify exactly one of `kind/bug`, `kind/cleanup` or `kind/feature`.''])
      @ (if length (filter (\<lambda>l. l \<in> fst ` set priorityMap) ls) = 1 then []
         else [''_**priority**_: Must specify exactly one of `priority/critical-urgent`, `priority/important-longterm` or `priority/important-soon`.''])
      @ (if filter (\<lambda>l. hasPrefix l sigLabelPrefix) ls = []
         then [''_**sig owner**_: Must specify at least one label prefixed with `sig/`.'']
         else [])"
proof (intro conjI allI impI)
  fix k p
  assume h: "filter (\<lambda>l. l \<in> fst ` set kindMap) ls = [k]
        \<and> filter (\<lambda>l. l \<in> fst ` set priorityMap) ls = [p]
        \<and> filter (\<lambda>l. hasPrefix l sigLabelPrefix) ls \<noteq> []"
  then show "checkLabels ls = (k, p, filter (\<lambda>l. hasPrefix l sigLabelPrefix) ls, [])"
    by (simp add: checkLabels_unfold uniqueLabelName_filter [OF kindMap_keys]
        uniqueLabelName_filter [OF priorityMap_keys])
next
  show "snd (snd (snd (checkLabels ls))) =
      (if length (filter (\<lambda>l. l \<in> fst ` set kindMap) ls) = 1 then []
       else [''_**kind**_: Must specify exactly one of `kind/bug`, `kind/cleanup` or `kind/feature`.''])
      @ (if length (filter (\<lambda>l. l \<in> fst ` set priorityMap) ls) = 1 then []
         else [''_**priority**_: Must specify exactly one of `priority/critical-urgent`, `priority/important-longterm` or `priority/important-soon`.''])
      @ (if filter (\<lambda>l. hasPrefix l sigLabelPrefix) ls = []
         then [''_**sig owner**_: Must specify at least one label prefixed with `sig/`.'']
         else [])"
    unfolding checkLabels_unfold kindErrorText priorityErrorText sigErrorText by simp
qed

theorem checkLabels_classification_witness:
  "checkLabels [''kind/bug'', ''priority/important-soon'', ''sig/api'', ''sig/node''] =
     (''kind/bug'', ''priority/important-soon'', [''sig/api'', ''sig/node''], [])
   \<and> snd (snd (snd (checkLabels [''kind/bug'', ''kind/feature'', ''status/in-progress'']))) =
       [''_**kind**_: Must specify exactly one of `kind/bug`, `kind/cleanup` or `kind/feature`.'',
        ''_**priority**_: Must specify exactly one of `priority/critical-urgent`, `priority/important-longterm` or `priority/important-soon`.'',
        ''_**sig owner**_: Must specify at least one label prefixed with `sig/`.'']"
  using checkLabels_classification [of "[''kind/bug'', ''priority/important-soon'', ''sig/api'', ''sig/node'']"]
        checkLabels_classification [of "[''kind/bug'', ''kind/feature'', ''status/in-progress'']"]
  by (simp add: kindMap_def priorityMap_def blockerLabel_def hasPrefix_def sigLabelPrefix_def)

section \<open>Properties of the grace period calculator\<close>



lemma sint_word64:
  assumes "- (2 ^ 63) \<le> x" "x < 2 ^ 63"
  shows "sint (word_of_int x :: 64 word) = x"
  using assms by (simp add: sint_sbintrunc' signed_take_bit_int_eq_self)

lemma sint_timeSub:
  assumes "minDuration \<le> t - u" "t - u \<le> maxDuration"
  shows "sint (timeSub t u) = t - u"
proof -
  have "timeSub t u = word_of_int (t - u)"
    using assms by (simp add: timeSub_def)
  moreover have "sint (word_of_int (t - u) :: 64 word) = t - u"
    using assms unfolding minDuration_def maxDuration_def by (intro sint_word64) simp_all
  ultimately show ?thesis by simp
qed







subsection \<open>The branches of the state resolver\<close>

lemma issueChangeConfig_invalid:
  assumes "checkLabels (obj_labels obj) = (k, p, s, errs)" and "errs \<noteq> []"
  shows "issueChangeConfig e clk m obj =
     (case gracePeriodRemaining obj (botName m) milestoneLabelsIncompleteLabel
             (labelGracePeriod m) (nowDefaultStart clk) (HasLabel obj blockerLabel)
             (nowGrace clk) of
        (removeAfter, ok) \<Rightarrow>
          if \<not> ok then None
          else if removeAfter = None \<or> 0 \<le> sint (the removeAfter)
          then Some (warnIncompleteLabels e (newIssueChangeConfig e m) removeAfter errs
                       (activeMilestone m))
          else Some (removeIncompleteLabels (newIssueChangeConfig e m) errs))"
  using assms by (simp add: issueChangeConfig_def Let_def)

lemma issueChangeConfig_unapproved:
  assumes "checkLabels (obj_labels obj) = (k, p, s, [])"
    and "\<not> HasLabel obj statusApprovedLabel"
  shows "issueChangeConfig e clk m obj =
     (if HasLabel obj blockerLabel
      then Some (warnUnapproved e (summarizeLabels (newIssueChangeConfig e m) k p s) None
                   (activeMilestone m))
      else
        (case gracePeriodRemaining obj (botName m) milestoneNeedsApprovalLabel
                (approvalGracePeriod m) (nowDefaultStart clk) False (nowGrace clk) of
           (removeAfter, ok) \<Rightarrow>
             if \<not> ok then None
             else if removeAfter = None \<or> 0 \<le> sint (the removeAfter)
             then Some (warnUnapproved e (summarizeLabels (newIssueChangeConfig e m) k p s)
                          removeAfter (activeMilestone m))
             else Some (removeUnapproved (summarizeLabels (newIssueChangeConfig e m) k p s))))"
  using assms by (simp add: issueChangeConfig_def Let_def)

lemma issueChangeConfig_approved:
  assumes "checkLabels (obj_labels obj) = (k, p, s, [])"
    and "HasLabel obj statusApprovedLabel"
  shows "issueChangeConfig e clk m obj =
     (let icc = summarizeLabels (newIssueChangeConfig e m) k p s;
          isBlocker = HasLabel obj blockerLabel
      in if mode m = milestoneModeDev then Some icc
         else if mode m = milestoneModeFreeze \<and> \<not> isBlocker then Some (removeNonBlocker icc)
         else
           (let icc = (if \<not> HasLabel obj statusInProgressLabel
                       then warnMissingInProgress icc else icc)
            in if \<not> isBlocker then Some (enableSection icc ''warnNonBlockerRemoval'')
               else if 0 < sint (updateInterval m) then
                 (case obj_lastModification obj of
                    None \<Rightarrow> None
                  | Some lastUpdateTime \<Rightarrow>
                      (let durationSinceUpdate = since (nowUpdate clk) lastUpdateTime;
                           icc = (if sint (updateInterval m) < sint durationSinceUpdate
                                  then warnUpdateRequired e icc lastUpdateTime else icc)
                       in Some (enableSection icc ''warnUpdateInterval'')))
               else Some icc))"
  using assms by (simp add: issueChangeConfig_def Let_def)

lemma state_simps:
  "state (enableSection icc n) = state icc"
  "state (summarizeLabels icc k p s) = milestoneCurrent"
  "state (warnUnapproved e icc ra am) = milestoneNeedsApproval"
  "state (removeUnapproved icc) = milestoneNeedsRemoval"
  "state (removeNonBlocker icc) = milestoneNeedsRemoval"
  "state (warnMissingInProgress icc) = milestoneNeedsAttention"
  "state (warnUpdateRequired e icc t) = milestoneNeedsAttention"
  "state (warnIncompleteLabels e icc ra errs am) = milestoneNeedsLabeling"
  "state (removeIncompleteLabels icc errs) = milestoneNeedsRemoval"
  by (simp_all add: enableSection_def summarizeLabels_def warnUnapproved_def
      removeUnapproved_def removeNonBlocker_def warnMissingInProgress_def
      warnUpdateRequired_def warnIncompleteLabels_def removeIncompleteLabels_def Let_def)

lemma sections_simps:
  "enabledSections (newIssueChangeConfig e m) = {}"
  "enabledSections (enableSection icc n) = insert n (enabledSections icc)"
  "enabledSections (summarizeLabels icc k p s) = insert ''summarizeLabels'' (enabledSections icc)"
  "enabledSections (warnUnapproved e icc ra am) = insert ''warnUnapproved'' (enabledSections icc)"
  "enabledSections (removeUnapproved icc) = insert ''removeUnapproved'' (enabledSections icc)"
  "enabledSections (removeNonBlocker icc) = insert ''removeNonBlocker'' (enabledSections icc)"
  "enabledSections (warnMissingInProgress icc) =
     insert ''warnMissingInProgress'' (enabledSections icc)"
  "enabledSections (warnUpdateRequired e icc t) =
     insert ''warnUpdateRequired'' (enabledSections icc)"
  "enabledSections (warnIncompleteLabels e icc ra errs am) =
     insert ''warnIncompleteLabels'' (enabledSections icc)"
  "enabledSections (removeIncompleteLabels icc errs) =
     insert ''removeIncompleteLabels'' (enabledSections icc)"
  by (simp_all add: newIssueChangeConfig_def enableSection_def summarizeLabels_def
      warnUnapproved_def removeUnapproved_def removeNonBlocker_def warnMissingInProgress_def
      warnUpdateRequired_def warnIncompleteLabels_def removeIncompleteLabels_def Let_def)

lemma state_distinct:
  "milestoneCurrent \<noteq> milestoneNeedsLabeling" "milestoneCurrent \<noteq> milestoneNeedsApproval"
  "milestoneCurrent \<noteq> milestoneNeedsAttention" "milestoneCurrent \<noteq> milestoneNeedsRemoval"
  "milestoneNeedsLabeling \<noteq> milestoneNeedsApproval"
  "milestoneNeedsLabeling \<noteq> milestoneNeedsAttention"
  "milestoneNeedsLabeling \<noteq> milestoneNeedsRemoval"
  "milestoneNeedsApproval \<noteq> milestoneNeedsAttention"
  "milestoneNeedsApproval \<noteq> milestoneNeedsRemoval"
  "milestoneNeedsAttention \<noteq> milestoneNeedsRemoval"
  by (simp_all add: milestoneCurrent_def milestoneNeedsLabeling_def milestoneNeedsApproval_def
      milestoneNeedsAttention_def milestoneNeedsRemoval_def)

subsection \<open>Labels that the classifier does not read\<close>

lemma filter_coarser:
  assumes "filter Q xs = filter Q ys" and "\<And>x. P x \<Longrightarrow> Q x"
  shows "filter P xs = filter P ys"
proof -
  have "filter P zs = filter P (filter Q zs)" for zs
    using assms(2) by (induction zs) auto
  then show ?thesis using assms(1) by metis
qed

lemma member_coarser:
  assumes "filter Q xs = filter Q ys" and "Q x"
  shows "x \<in> set xs \<longleftrightarrow> x \<in> set ys"
proof -
  have "x \<in> set (filter Q xs) \<longleftrightarrow> x \<in> set (filter Q ys)" using assms(1) by simp
  then show ?thesis using assms(2) by simp
qed

lemma checkLabels_filters:
  assumes "filter (\<lambda>l. l \<in> fst ` set kindMap) xs = filter (\<lambda>l. l \<in> fst ` set kindMap) ys"
    and "filter (\<lambda>l. l \<in> fst ` set priorityMap) xs = filter (\<lambda>l. l \<in> fst ` set priorityMap) ys"
    and "filter (\<lambda>l. hasPrefix l sigLabelPrefix) xs = filter (\<lambda>l. hasPrefix l sigLabelPrefix) ys"
  shows "checkLabels xs = checkLabels ys"
  unfolding checkLabels_unfold uniqueLabelName_filter [OF kindMap_keys]
    uniqueLabelName_filter [OF priorityMap_keys] assms ..

lemma status_labels_unread:
  "statusApprovedLabel \<notin> fst ` set kindMap" "statusApprovedLabel \<notin> fst ` set priorityMap"
  "\<not> hasPrefix statusApprovedLabel sigLabelPrefix"
  "statusInProgressLabel \<notin> fst ` set kindMap" "statusInProgressLabel \<notin> fst ` set priorityMap"
  "\<not> hasPrefix statusInProgressLabel sigLabelPrefix"
  by (simp_all add: statusApprovedLabel_def statusInProgressLabel_def kindMap_def
      priorityMap_def blockerLabel_def hasPrefix_def sigLabelPrefix_def)

lemma checkLabels_status_labels:
  assumes "filter (\<lambda>l. l \<noteq> statusApprovedLabel \<and> l \<noteq> statusInProgressLabel) xs
         = filter (\<lambda>l. l \<noteq> statusApprovedLabel \<and> l \<noteq> statusInProgressLabel) ys"
  shows "checkLabels xs = checkLabels ys"
proof (rule checkLabels_filters)
  show "filter (\<lambda>l. l \<in> fst ` set kindMap) xs = filter (\<lambda>l. l \<in> fst ` set kindMap) ys"
    using status_labels_unread by (intro filter_coarser [OF assms]) blast
  show "filter (\<lambda>l. l \<in> fst ` set priorityMap) xs = filter (\<lambda>l. l \<in> fst ` set priorityMap) ys"
    using status_labels_unread by (intro filter_coarser [OF assms]) blast
  show "filter (\<lambda>l. hasPrefix l sigLabelPrefix) xs = filter (\<lambda>l. hasPrefix l sigLabelPrefix) ys"
    using status_labels_unread by (intro filter_coarser [OF assms]) blast
qed

lemma checkLabels_in_progress:
  assumes "filter (\<lambda>l. l \<noteq> statusInProgressLabel) xs
         = filter (\<lambda>l. l \<noteq> statusInProgressLabel) ys"
  shows "checkLabels xs = checkLabels ys"
  by (rule checkLabels_status_labels) (rule filter_coarser [OF assms], simp)

lemma status_labels_distinct:
  "statusApprovedLabel \<noteq> statusInProgressLabel" "blockerLabel \<noteq> statusInProgressLabel"
  "blockerLabel \<noteq> statusApprovedLabel"
  "milestoneLabelsIncompleteLabel \<noteq> statusInProgressLabel"
  "milestoneLabelsIncompleteLabel \<noteq> statusApprovedLabel"
  "milestoneNeedsApprovalLabel \<noteq> statusInProgressLabel"
  "milestoneNeedsApprovalLabel \<noteq> statusApprovedLabel"
  by (simp_all add: statusApprovedLabel_def statusInProgressLabel_def blockerLabel_def
      milestoneLabelsIncompleteLabel_def milestoneNeedsApprovalLabel_def)

lemma HasLabel_in_progress:
  assumes "filter (\<lambda>l. l \<noteq> statusInProgressLabel) ls'
         = filter (\<lambda>l. l \<noteq> statusInProgressLabel) (obj_labels obj)"
    and "x \<noteq> statusInProgressLabel"
  shows "HasLabel (obj\<lparr>obj_labels := ls', obj_lastModification := lm'\<rparr>) x = HasLabel obj x"
  using member_coarser [OF assms(1), of x] assms(2) by (simp add: HasLabel_def)

text \<open>
  Claim C6.  With valid labels and the approved label, in freeze mode an item that is
  not a blocker resolves to \<^verbatim>\<open>NeedsRemoval\<close> with the sections \<^verbatim>\<open>summarizeLabels\<close> and
  \<^verbatim>\<open>removeNonBlocker\<close> only; the result is the same whatever the in-progress label, the
  result of the last-modification lookup and the clock reading of the update check.
\<close>

theorem freeze_non_blocker_removed:
  "snd (snd (snd (checkLabels (obj_labels obj)))) = [] \<and> HasLabel obj statusApprovedLabel
     \<and> mode m = milestoneModeFreeze \<and> \<not> HasLabel obj blockerLabel
   \<longrightarrow> (\<exists>icc. issueChangeConfig e clk m obj = Some icc \<and> state icc = milestoneNeedsRemoval
             \<and> enabledSections icc = {''summarizeLabels'', ''removeNonBlocker''})
       \<and> (\<forall>ls' lm' t'.
             filter (\<lambda>l. l \<noteq> statusInProgressLabel) ls'
               = filter (\<lambda>l. l \<noteq> statusInProgressLabel) (obj_labels obj)
             \<longrightarrow> issueChangeConfig e (clk\<lparr>nowUpdate := t'\<rparr>) m
                   (obj\<lparr>obj_labels := ls', obj_lastModification := lm'\<rparr>)
                 = issueChangeConfig e clk m obj)"
proof (intro impI conjI allI)
  assume h: "snd (snd (snd (checkLabels (obj_labels obj)))) = []
     \<and> HasLabel obj statusApprovedLabel
     \<and> mode m = milestoneModeFreeze \<and> \<not> HasLabel obj blockerLabel"
  obtain k p s where c: "checkLabels (obj_labels obj) = (k, p, s, [])"
    using h by (cases "checkLabels (obj_labels obj)") auto
  have dev: "milestoneModeFreeze \<noteq> milestoneModeDev"
    by (simp add: milestoneModeFreeze_def milestoneModeDev_def)
  have r: "issueChangeConfig e clk m obj
      = Some (removeNonBlocker (summarizeLabels (newIssueChangeConfig e m) k p s))"
    using h dev by (simp add: issueChangeConfig_approved [OF c] Let_def)
  show "\<exists>icc. issueChangeConfig e clk m obj = Some icc \<and> state icc = milestoneNeedsRemoval
             \<and> enabledSections icc = {''summarizeLabels'', ''removeNonBlocker''}"
    unfolding r by (auto simp add: state_simps sections_simps)
  fix ls' lm' t'
  assume f: "filter (\<lambda>l. l \<noteq> statusInProgressLabel) ls'
               = filter (\<lambda>l. l \<noteq> statusInProgressLabel) (obj_labels obj)"
  let ?obj = "obj\<lparr>obj_labels := ls', obj_lastModification := lm'\<rparr>"
  have c': "checkLabels (obj_labels ?obj) = (k, p, s, [])"
    using checkLabels_in_progress [OF f] c by simp
  have a': "HasLabel ?obj statusApprovedLabel"
    using h HasLabel_in_progress [OF f] status_labels_distinct by simp
  have b': "\<not> HasLabel ?obj blockerLabel"
    using h HasLabel_in_progress [OF f] status_labels_distinct by simp
  have "issueChangeConfig e (clk\<lparr>nowUpdate := t'\<rparr>) m ?obj
      = Some (removeNonBlocker (summarizeLabels (newIssueChangeConfig e m) k p s))"
    using h dev b' by (simp add: issueChangeConfig_approved [OF c' a'] Let_def)
  then show "issueChangeConfig e (clk\<lparr>nowUpdate := t'\<rparr>) m ?obj = issueChangeConfig e clk m obj"
    using r by simp
qed

theorem freeze_non_blocker_removed_witness:
  "(\<exists>icc. issueChangeConfig exampleEnv exampleClock
             (exampleMaintainer\<lparr>mode := milestoneModeFreeze\<rparr>)
             (exampleObject\<lparr>obj_labels := [''kind/bug'', ''priority/important-soon'',
                ''sig/api'', ''status/approved-for-milestone'']\<rparr>) = Some icc
          \<and> state icc = milestoneNeedsRemoval
          \<and> enabledSections icc = {''summarizeLabels'', ''removeNonBlocker''})"
  using freeze_non_blocker_removed [of
      "exampleObject\<lparr>obj_labels := [''kind/bug'', ''priority/important-soon'',
                ''sig/api'', ''status/approved-for-milestone'']\<rparr>"
      "exampleMaintainer\<lparr>mode := milestoneModeFreeze\<rparr>" exampleEnv exampleClock]
  by (simp add: checkLabels_unfold kindMap_def priorityMap_def blockerLabel_def hasPrefix_def
      sigLabelPrefix_def HasLabel_def statusApprovedLabel_def)

lemma gracePeriodRemaining_blocker:
  "gracePeriodRemaining obj bn l gp d True now = (None, True)"
  by (simp add: gracePeriodRemaining_def)

lemma messageArguments_enabled:
  assumes "n \<in> enabledSections icc" and "state icc \<noteq> milestoneNeedsRemoval"
    and "n \<noteq> ''onlySummary''"
  shows "messageArguments icc n = Some (VBool True)"
  using assms by (simp add: messageArguments_def)

lemma modes_distinct:
  "milestoneModeFreeze \<noteq> milestoneModeDev" "milestoneModeSlush \<noteq> milestoneModeDev"
  "milestoneModeSlush \<noteq> milestoneModeFreeze"
  by (simp_all add: milestoneModeFreeze_def milestoneModeDev_def milestoneModeSlush_def)

lemma blocker_progress_checks:
  assumes c: "checkLabels (obj_labels obj) = (k, p, s, [])"
    and a: "HasLabel obj statusApprovedLabel" and b: "HasLabel obj blockerLabel"
    and md: "mode m = milestoneModeSlush \<or> mode m = milestoneModeFreeze"
    and ui: "0 < sint (updateInterval m)"
    and lm: "obj_lastModification obj = Some t"
  shows "\<exists>icc. issueChangeConfig e clk m obj = Some icc
           \<and> state icc \<noteq> milestoneNeedsRemoval
           \<and> ''warnUpdateInterval'' \<in> enabledSections icc
           \<and> (sint (updateInterval m) < sint (since (nowUpdate clk) t)
                \<longrightarrow> state icc = milestoneNeedsAttention
                    \<and> ''warnUpdateRequired'' \<in> enabledSections icc)
           \<and> (\<not> HasLabel obj statusInProgressLabel
                \<longrightarrow> state icc = milestoneNeedsAttention
                    \<and> ''warnMissingInProgress'' \<in> enabledSections icc)
           \<and> (HasLabel obj statusInProgressLabel
                \<and> \<not> sint (updateInterval m) < sint (since (nowUpdate clk) t)
                \<longrightarrow> state icc = milestoneCurrent)"
proof -
  have nd: "mode m \<noteq> milestoneModeDev" using md modes_distinct by auto
  show ?thesis
    using nd b ui lm
    by (simp add: issueChangeConfig_approved [OF c a] Let_def state_simps sections_simps
        state_distinct)
qed

text \<open>
  Claim C5.  For an item with the blocker label: label errors resolve to
  \<^verbatim>\<open>NeedsLabeling\<close> and a missing approval to \<^verbatim>\<open>NeedsApproval\<close>, both with an empty
  removal warning, never to \<^verbatim>\<open>NeedsRemoval\<close>.  With valid labels and approval, in slush
  or freeze mode with a positive update interval and a known last modification, the
  section \<^verbatim>\<open>warnUpdateInterval\<close> is enabled and rendered; when the time since the last
  modification exceeds the interval the state is \<^verbatim>\<open>NeedsAttention\<close> and the section
  \<^verbatim>\<open>warnUpdateRequired\<close> is enabled and rendered; a missing in-progress label gives
  \<^verbatim>\<open>NeedsAttention\<close> as well.
\<close>

theorem blocker_obligations:
  "HasLabel obj blockerLabel \<longrightarrow>
     (snd (snd (snd (checkLabels (obj_labels obj)))) \<noteq> []
        \<longrightarrow> (\<exists>icc. issueChangeConfig e clk m obj = Some icc
                  \<and> state icc = milestoneNeedsLabeling
                  \<and> templateArguments icc ''incompleteLabelsRemovalWarning'' = Some (VString [])))
     \<and> (snd (snd (snd (checkLabels (obj_labels obj)))) = []
          \<and> \<not> HasLabel obj statusApprovedLabel
        \<longrightarrow> (\<exists>icc. issueChangeConfig e clk m obj = Some icc
                  \<and> state icc = milestoneNeedsApproval
                  \<and> templateArguments icc ''unapprovedRemovalWarning'' = Some (VString [])))
     \<and> (\<forall>t. snd (snd (snd (checkLabels (obj_labels obj)))) = []
          \<and> HasLabel obj statusApprovedLabel
          \<and> (mode m = milestoneModeSlush \<or> mode m = milestoneModeFreeze)
          \<and> 0 < sint (updateInterval m) \<and> obj_lastModification obj = Some t
        \<longrightarrow> (\<exists>icc. issueChangeConfig e clk m obj = Some icc
                  \<and> ''warnUpdateInterval'' \<in> enabledSections icc
                  \<and> messageArguments icc ''warnUpdateInterval'' = Some (VBool True)
                  \<and> (sint (updateInterval m) < sint (since (nowUpdate clk) t)
                       \<longrightarrow> state icc = milestoneNeedsAttention
                           \<and> ''warnUpdateRequired'' \<in> enabledSections icc
                           \<and> messageArguments icc ''warnUpdateRequired'' = Some (VBool True))
                  \<and> (\<not> HasLabel obj statusInProgressLabel
                       \<longrightarrow> state icc = milestoneNeedsAttention)))"
proof (intro impI conjI allI)
  assume b: "HasLabel obj blockerLabel"
  {
    assume "snd (snd (snd (checkLabels (obj_labels obj)))) \<noteq> []"
    then obtain k p s errs where c: "checkLabels (obj_labels obj) = (k, p, s, errs)"
        and ne: "errs \<noteq> []"
      by (cases "checkLabels (obj_labels obj)") auto
    show "\<exists>icc. issueChangeConfig e clk m obj = Some icc
                  \<and> state icc = milestoneNeedsLabeling
                  \<and> templateArguments icc ''incompleteLabelsRemovalWarning'' = Some (VString [])"
      using b
      by (simp add: issueChangeConfig_invalid [OF c ne] gracePeriodRemaining_blocker
          state_simps warnIncompleteLabels_def Let_def)
  }
  {
    assume h: "snd (snd (snd (checkLabels (obj_labels obj)))) = []
          \<and> \<not> HasLabel obj statusApprovedLabel"
    then obtain k p s where c: "checkLabels (obj_labels obj) = (k, p, s, [])"
      by (cases "checkLabels (obj_labels obj)") auto
    from h have a: "\<not> HasLabel obj statusApprovedLabel" by simp
    show "\<exists>icc. issueChangeConfig e clk m obj = Some icc
                  \<and> state icc = milestoneNeedsApproval
                  \<and> templateArguments icc ''unapprovedRemovalWarning'' = Some (VString [])"
      using b
      by (simp add: issueChangeConfig_unapproved [OF c a] state_simps warnUnapproved_def Let_def)
  }
  {
    fix t
    assume h: "snd (snd (snd (checkLabels (obj_labels obj)))) = []
          \<and> HasLabel obj statusApprovedLabel
          \<and> (mode m = milestoneModeSlush \<or> mode m = milestoneModeFreeze)
          \<and> 0 < sint (updateInterval m) \<and> obj_lastModification obj = Some t"
    then obtain k p s where c: "checkLabels (obj_labels obj) = (k, p, s, [])"
      by (cases "checkLabels (obj_labels obj)") auto
    from h obtain icc where i: "issueChangeConfig e clk m obj = Some icc"
        "state icc \<noteq> milestoneNeedsRemoval"
        "''warnUpdateInterval'' \<in> enabledSections icc"
        "sint (updateInterval m) < sint (since (nowUpdate clk) t)
           \<longrightarrow> state icc = milestoneNeedsAttention
               \<and> ''warnUpdateRequired'' \<in> enabledSections icc"
        "\<not> HasLabel obj statusInProgressLabel \<longrightarrow> state icc = milestoneNeedsAttention
               \<and> ''warnMissingInProgress'' \<in> enabledSections icc"
      using blocker_progress_checks [OF c _ b, of m t e clk] by blast
    have "messageArguments icc ''warnUpdateInterval'' = Some (VBool True)"
      using i by (intro messageArguments_enabled) simp_all
    moreover have "sint (updateInterval m) < sint (since (nowUpdate clk) t)
        \<longrightarrow> messageArguments icc ''warnUpdateRequired'' = Some (VBool True)"
      using i by (auto intro!: messageArguments_enabled)
    ultimately show "\<exists>icc. issueChangeConfig e clk m obj = Some icc
                  \<and> ''warnUpdateInterval'' \<in> enabledSections icc
                  \<and> messageArguments icc ''warnUpdateInterval'' = Some (VBool True)
                  \<and> (sint (updateInterval m) < sint (since (nowUpdate clk) t)
                       \<longrightarrow> state icc = milestoneNeedsAttention
                           \<and> ''warnUpdateRequired'' \<in> enabledSections icc
                           \<and> messageArguments icc ''warnUpdateRequired'' = Some (VBool True))
                  \<and> (\<not> HasLabel obj statusInProgressLabel
                       \<longrightarrow> state icc = milestoneNeedsAttention)"
      using i by auto
  }
qed


lemma example_simps:
  "obj_labels (exampleObject\<lparr>obj_labels := ls\<rparr>) = ls"
  "obj_lastModification (exampleObject\<lparr>obj_labels := ls\<rparr>) = Some 0"
  "obj_events (exampleObject\<lparr>obj_labels := ls\<rparr>) = Some []"
  "nowUpdate exampleClock = 108000000000000"
  "nowGrace exampleClock = 108000000000000"
  "nowDefaultStart exampleClock = 108000000000000"
  "mode (exampleMaintainer\<lparr>mode := md\<rparr>) = md"
  "updateInterval (exampleMaintainer\<lparr>mode := milestoneModeFreeze\<rparr>) = 86400000000000"
  "updateInterval (exampleMaintainer\<lparr>mode := milestoneModeSlush\<rparr>) = 259200000000000"
  by (simp_all add: exampleObject_def exampleClock_def exampleMaintainer_def updateInterval_def
      milestoneModeFreeze_def milestoneModeSlush_def)

lemma label_evaluation:
  "kindMap = [(''kind/bug'', ''Fixes a bug discovered during the current release.''),
      (''kind/feature'', ''New functionality.''),
      (''kind/cleanup'', ''Adding tests, refactoring, fixing old bugs.'')]"
  "fst ` set priorityMap = {''priority/critical-urgent'', ''priority/important-soon'',
      ''priority/important-longterm''}"
  "hasPrefix l sigLabelPrefix = (take (Suc (Suc (Suc (Suc 0)))) l = ''sig/'')"
  "HasLabel obj x = (x \<in> set (obj_labels obj))"
  "statusApprovedLabel = ''status/approved-for-milestone''"
  "statusInProgressLabel = ''status/in-progress''"
  "blockerLabel = ''priority/critical-urgent''"
  by (simp_all add: kindMap_def priorityMap_def blockerLabel_def hasPrefix_def
      sigLabelPrefix_def HasLabel_def statusApprovedLabel_def statusInProgressLabel_def)

theorem blocker_obligations_witness:
  "(\<exists>icc. issueChangeConfig exampleEnv exampleClock exampleMaintainer
            (exampleObject\<lparr>obj_labels := [''priority/critical-urgent'']\<rparr>) = Some icc
          \<and> state icc = milestoneNeedsLabeling)
   \<and> (\<exists>icc. issueChangeConfig exampleEnv exampleClock exampleMaintainer
            (exampleObject\<lparr>obj_labels :=
               [''kind/bug'', ''priority/critical-urgent'', ''sig/api'']\<rparr>) = Some icc
          \<and> state icc = milestoneNeedsApproval)
   \<and> (\<exists>icc. issueChangeConfig exampleEnv exampleClock
            (exampleMaintainer\<lparr>mode := milestoneModeFreeze\<rparr>)
            (exampleObject\<lparr>obj_labels :=
               [''kind/bug'', ''priority/critical-urgent'', ''sig/api'',
                ''status/approved-for-milestone'', ''status/in-progress'']\<rparr>) = Some icc
          \<and> state icc = milestoneNeedsAttention
          \<and> messageArguments icc ''warnUpdateRequired'' = Some (VBool True)
          \<and> messageArguments icc ''warnUpdateInterval'' = Some (VBool True))"
proof (intro conjI)
  show "\<exists>icc. issueChangeConfig exampleEnv exampleClock exampleMaintainer
            (exampleObject\<lparr>obj_labels := [''priority/critical-urgent'']\<rparr>) = Some icc
          \<and> state icc = milestoneNeedsLabeling"
    using blocker_obligations [of "exampleObject\<lparr>obj_labels := [''priority/critical-urgent'']\<rparr>"
        exampleEnv exampleClock exampleMaintainer]
    by (simp add: checkLabels_unfold example_simps label_evaluation) blast
  show "\<exists>icc. issueChangeConfig exampleEnv exampleClock exampleMaintainer
            (exampleObject\<lparr>obj_labels :=
               [''kind/bug'', ''priority/critical-urgent'', ''sig/api'']\<rparr>) = Some icc
          \<and> state icc = milestoneNeedsApproval"
    using blocker_obligations [of "exampleObject\<lparr>obj_labels :=
               [''kind/bug'', ''priority/critical-urgent'', ''sig/api'']\<rparr>"
        exampleEnv exampleClock exampleMaintainer]
    by (simp add: checkLabels_unfold example_simps label_evaluation) blast
  show "\<exists>icc. issueChangeConfig exampleEnv exampleClock
            (exampleMaintainer\<lparr>mode := milestoneModeFreeze\<rparr>)
            (exampleObject\<lparr>obj_labels :=
               [''kind/bug'', ''priority/critical-urgent'', ''sig/api'',
                ''status/approved-for-milestone'', ''status/in-progress'']\<rparr>) = Some icc
          \<and> state icc = milestoneNeedsAttention
          \<and> messageArguments icc ''warnUpdateRequired'' = Some (VBool True)
          \<and> messageArguments icc ''warnUpdateInterval'' = Some (VBool True)"
    using blocker_obligations [of "exampleObject\<lparr>obj_labels :=
               [''kind/bug'', ''priority/critical-urgent'', ''sig/api'',
                ''status/approved-for-milestone'', ''status/in-progress'']\<rparr>"
        exampleEnv exampleClock "exampleMaintainer\<lparr>mode := milestoneModeFreeze\<rparr>"]
    by (simp add: checkLabels_unfold example_simps label_evaluation since_def timeSub_def
        maxDuration_def minDuration_def) blast
qed

lemma gracePeriodRemaining_cong:
  assumes "HasLabel obj' l = HasLabel obj l" and "obj_events obj' = obj_events obj"
  shows "gracePeriodRemaining obj' bn l gp d b now = gracePeriodRemaining obj bn l gp d b now"
  using assms
  by (simp add: gracePeriodRemaining_def gracePeriodStart_def labelLastCreatedAt_def)

lemma HasLabel_status_labels:
  assumes "filter (\<lambda>l. l \<noteq> statusApprovedLabel \<and> l \<noteq> statusInProgressLabel) ls'
         = filter (\<lambda>l. l \<noteq> statusApprovedLabel \<and> l \<noteq> statusInProgressLabel) (obj_labels obj)"
    and "x \<noteq> statusApprovedLabel" and "x \<noteq> statusInProgressLabel"
  shows "HasLabel (obj\<lparr>obj_labels := ls', obj_lastModification := lm'\<rparr>) x = HasLabel obj x"
  using member_coarser [OF assms(1), of x] assms(2,3) by (simp add: HasLabel_def)

text \<open>What the two early branches of the resolver decide, as state and sections.\<close>

lemma issueChangeConfig_invalid_outcome:
  assumes "checkLabels (obj_labels obj) = (k, p, s, errs)" and "errs \<noteq> []"
  shows "map_option (\<lambda>i. (state i, enabledSections i)) (issueChangeConfig e clk m obj) =
     (case gracePeriodRemaining obj (botName m) milestoneLabelsIncompleteLabel
             (labelGracePeriod m) (nowDefaultStart clk) (HasLabel obj blockerLabel)
             (nowGrace clk) of
        (removeAfter, ok) \<Rightarrow>
          if \<not> ok then None
          else if removeAfter = None \<or> 0 \<le> sint (the removeAfter)
          then Some (milestoneNeedsLabeling, {''warnIncompleteLabels''})
          else Some (milestoneNeedsRemoval, {''removeIncompleteLabels''}))"
  unfolding issueChangeConfig_invalid [OF assms]
  by (simp add: state_simps sections_simps split: prod.splits)

lemma issueChangeConfig_unapproved_outcome:
  assumes "checkLabels (obj_labels obj) = (k, p, s, [])"
    and "\<not> HasLabel obj statusApprovedLabel"
  shows "map_option (\<lambda>i. (state i, enabledSections i)) (issueChangeConfig e clk m obj) =
     (if HasLabel obj blockerLabel
      then Some (milestoneNeedsApproval, {''warnUnapproved'', ''summarizeLabels''})
      else
        (case gracePeriodRemaining obj (botName m) milestoneNeedsApprovalLabel
                (approvalGracePeriod m) (nowDefaultStart clk) False (nowGrace clk) of
           (removeAfter, ok) \<Rightarrow>
             if \<not> ok then None
             else if removeAfter = None \<or> 0 \<le> sint (the removeAfter)
             then Some (milestoneNeedsApproval, {''warnUnapproved'', ''summarizeLabels''})
             else Some (milestoneNeedsRemoval, {''removeUnapproved'', ''summarizeLabels''})))"
  unfolding issueChangeConfig_unapproved [OF assms]
  by (simp add: state_simps sections_simps split: prod.splits)

text \<open>
  Claim C1.  When the classification has errors, a resolved state is \<^verbatim>\<open>NeedsLabeling\<close>
  (section \<^verbatim>\<open>warnIncompleteLabels\<close>) or \<^verbatim>\<open>NeedsRemoval\<close> (section
  \<^verbatim>\<open>removeIncompleteLabels\<close>), and state and sections stay the same whatever the approved
  and in-progress labels, the mode, the update intervals, the last-modification lookup
  and the clock reading of the update check.  When the labels are valid and the
  approved label is missing, a resolved state is \<^verbatim>\<open>NeedsApproval\<close> or \<^verbatim>\<open>NeedsRemoval\<close>
  (section \<^verbatim>\<open>removeUnapproved\<close>), and state and sections stay the same whatever the
  in-progress label, the mode, the update intervals, the last-modification lookup and
  that clock reading.
\<close>

theorem resolution_order:
  "(snd (snd (snd (checkLabels (obj_labels obj)))) \<noteq> [] \<longrightarrow>
      (\<forall>icc. issueChangeConfig e clk m obj = Some icc \<longrightarrow>
          (state icc = milestoneNeedsLabeling
             \<and> enabledSections icc = {''warnIncompleteLabels''})
        \<or> (state icc = milestoneNeedsRemoval
             \<and> enabledSections icc = {''removeIncompleteLabels''}))
      \<and> (\<forall>ls' lm' t' md su fu.
            filter (\<lambda>l. l \<noteq> statusApprovedLabel \<and> l \<noteq> statusInProgressLabel) ls'
              = filter (\<lambda>l. l \<noteq> statusApprovedLabel \<and> l \<noteq> statusInProgressLabel)
                  (obj_labels obj)
            \<longrightarrow> map_option (\<lambda>i. (state i, enabledSections i))
                  (issueChangeConfig e (clk\<lparr>nowUpdate := t'\<rparr>)
                     (m\<lparr>mode := md, slushUpdateInterval := su, freezeUpdateInterval := fu\<rparr>)
                     (obj\<lparr>obj_labels := ls', obj_lastModification := lm'\<rparr>))
                = map_option (\<lambda>i. (state i, enabledSections i))
                    (issueChangeConfig e clk m obj)))
   \<and> (snd (snd (snd (checkLabels (obj_labels obj)))) = []
        \<and> \<not> HasLabel obj statusApprovedLabel \<longrightarrow>
      (\<forall>icc. issueChangeConfig e clk m obj = Some icc \<longrightarrow>
          (state icc = milestoneNeedsApproval
             \<and> enabledSections icc = {''warnUnapproved'', ''summarizeLabels''})
        \<or> (state icc = milestoneNeedsRemoval
             \<and> enabledSections icc = {''removeUnapproved'', ''summarizeLabels''}))
      \<and> (\<forall>ls' lm' t' md su fu.
            filter (\<lambda>l. l \<noteq> statusInProgressLabel) ls'
              = filter (\<lambda>l. l \<noteq> statusInProgressLabel) (obj_labels obj)
            \<longrightarrow> map_option (\<lambda>i. (state i, enabledSections i))
                  (issueChangeConfig e (clk\<lparr>nowUpdate := t'\<rparr>)
                     (m\<lparr>mode := md, slushUpdateInterval := su, freezeUpdateInterval := fu\<rparr>)
                     (obj\<lparr>obj_labels := ls', obj_lastModification := lm'\<rparr>))
                = map_option (\<lambda>i. (state i, enabledSections i))
                    (issueChangeConfig e clk m obj)))"
proof (intro conjI impI allI)
  fix icc
  assume ne: "snd (snd (snd (checkLabels (obj_labels obj)))) \<noteq> []"
    and r: "issueChangeConfig e clk m obj = Some icc"
  obtain k p s errs where c: "checkLabels (obj_labels obj) = (k, p, s, errs)" and e: "errs \<noteq> []"
    using ne by (cases "checkLabels (obj_labels obj)") auto
  show "(state icc = milestoneNeedsLabeling
             \<and> enabledSections icc = {''warnIncompleteLabels''})
        \<or> (state icc = milestoneNeedsRemoval
             \<and> enabledSections icc = {''removeIncompleteLabels''})"
    using issueChangeConfig_invalid_outcome [OF c e, of e clk m] r
    by (auto split: prod.splits if_splits)
next
  fix ls' lm' t' md su fu
  assume ne: "snd (snd (snd (checkLabels (obj_labels obj)))) \<noteq> []"
    and f: "filter (\<lambda>l. l \<noteq> statusApprovedLabel \<and> l \<noteq> statusInProgressLabel) ls'
              = filter (\<lambda>l. l \<noteq> statusApprovedLabel \<and> l \<noteq> statusInProgressLabel)
                  (obj_labels obj)"
  let ?obj = "obj\<lparr>obj_labels := ls', obj_lastModification := lm'\<rparr>"
  obtain k p s errs where c: "checkLabels (obj_labels obj) = (k, p, s, errs)" and e: "errs \<noteq> []"
    using ne by (cases "checkLabels (obj_labels obj)") auto
  have c': "checkLabels (obj_labels ?obj) = (k, p, s, errs)"
    using checkLabels_status_labels [OF f] c by simp
  have b: "HasLabel ?obj blockerLabel = HasLabel obj blockerLabel"
    using status_labels_distinct by (intro HasLabel_status_labels [OF f]) simp_all
  have g: "gracePeriodRemaining ?obj bn milestoneLabelsIncompleteLabel gp d bl now
         = gracePeriodRemaining obj bn milestoneLabelsIncompleteLabel gp d bl now"
    for bn gp d bl now
    using status_labels_distinct
    by (intro gracePeriodRemaining_cong HasLabel_status_labels [OF f]) simp_all
  show "map_option (\<lambda>i. (state i, enabledSections i))
                  (issueChangeConfig e (clk\<lparr>nowUpdate := t'\<rparr>)
                     (m\<lparr>mode := md, slushUpdateInterval := su, freezeUpdateInterval := fu\<rparr>)
                     ?obj)
                = map_option (\<lambda>i. (state i, enabledSections i))
                    (issueChangeConfig e clk m obj)"
    unfolding issueChangeConfig_invalid_outcome [OF c e]
      issueChangeConfig_invalid_outcome [OF c' e] b g
    by simp
next
  fix icc
  assume h: "snd (snd (snd (checkLabels (obj_labels obj)))) = []
        \<and> \<not> HasLabel obj statusApprovedLabel"
    and r: "issueChangeConfig e clk m obj = Some icc"
  obtain k p s where c: "checkLabels (obj_labels obj) = (k, p, s, [])"
    using h by (cases "checkLabels (obj_labels obj)") auto
  from h have a: "\<not> HasLabel obj statusApprovedLabel" by simp
  show "(state icc = milestoneNeedsApproval
             \<and> enabledSections icc = {''warnUnapproved'', ''summarizeLabels''})
        \<or> (state icc = milestoneNeedsRemoval
             \<and> enabledSections icc = {''removeUnapproved'', ''summarizeLabels''})"
    using issueChangeConfig_unapproved_outcome [OF c a, of e clk m] r
    by (auto split: prod.splits if_splits)
next
  fix ls' lm' t' md su fu
  assume h: "snd (snd (snd (checkLabels (obj_labels obj)))) = []
        \<and> \<not> HasLabel obj statusApprovedLabel"
    and f: "filter (\<lambda>l. l \<noteq> statusInProgressLabel) ls'
              = filter (\<lambda>l. l \<noteq> statusInProgressLabel) (obj_labels obj)"
  let ?obj = "obj\<lparr>obj_labels := ls', obj_lastModification := lm'\<rparr>"
  obtain k p s where c: "checkLabels (obj_labels obj) = (k, p, s, [])"
    using h by (cases "checkLabels (obj_labels obj)") auto
  from h have a: "\<not> HasLabel obj statusApprovedLabel" by simp
  have c': "checkLabels (obj_labels ?obj) = (k, p, s, [])"
    using checkLabels_in_progress [OF f] c by simp
  have a': "\<not> HasLabel ?obj statusApprovedLabel"
    using a HasLabel_in_progress [OF f] status_labels_distinct by simp
  have b: "HasLabel ?obj blockerLabel = HasLabel obj blockerLabel"
    using HasLabel_in_progress [OF f] status_labels_distinct by simp
  have g: "gracePeriodRemaining ?obj bn milestoneNeedsApprovalLabel gp d bl now
         = gracePeriodRemaining obj bn milestoneNeedsApprovalLabel gp d bl now"
    for bn gp d bl now
    using status_labels_distinct
    by (intro gracePeriodRemaining_cong HasLabel_in_progress [OF f]) simp_all
  show "map_option (\<lambda>i. (state i, enabledSections i))
                  (issueChangeConfig e (clk\<lparr>nowUpdate := t'\<rparr>)
                     (m\<lparr>mode := md, slushUpdateInterval := su, freezeUpdateInterval := fu\<rparr>)
                     ?obj)
                = map_option (\<lambda>i. (state i, enabledSections i))
                    (issueChangeConfig e clk m obj)"
    unfolding issueChangeConfig_unapproved_outcome [OF c a]
      issueChangeConfig_unapproved_outcome [OF c' a'] b g
    by simp
qed


theorem resolution_order_witness:
  "snd (snd (snd (checkLabels (obj_labels (exampleObject\<lparr>obj_labels := []\<rparr>))))) \<noteq> []
   \<and> map_option (\<lambda>i. (state i, enabledSections i))
         (issueChangeConfig exampleEnv exampleClock exampleMaintainer
            (exampleObject\<lparr>obj_labels := []\<rparr>))
       = Some (milestoneNeedsLabeling, {''warnIncompleteLabels''})
   \<and> map_option (\<lambda>i. (state i, enabledSections i))
         (issueChangeConfig exampleEnv (exampleClock\<lparr>nowUpdate := 0\<rparr>)
            (exampleMaintainer\<lparr>mode := milestoneModeFreeze, slushUpdateInterval := 1,
               freezeUpdateInterval := 1\<rparr>)
            (exampleObject\<lparr>obj_labels := [''status/approved-for-milestone''],
               obj_lastModification := None\<rparr>))
       = Some (milestoneNeedsLabeling, {''warnIncompleteLabels''})
   \<and> snd (snd (snd (checkLabels (obj_labels exampleObject)))) = []
   \<and> \<not> HasLabel exampleObject statusApprovedLabel
   \<and> map_option (\<lambda>i. (state i, enabledSections i))
         (issueChangeConfig exampleEnv exampleClock exampleMaintainer exampleObject)
       = Some (milestoneNeedsApproval, {''warnUnapproved'', ''summarizeLabels''})
   \<and> map_option (\<lambda>i. (state i, enabledSections i))
         (issueChangeConfig exampleEnv (exampleClock\<lparr>nowUpdate := 0\<rparr>)
            (exampleMaintainer\<lparr>mode := milestoneModeFreeze, slushUpdateInterval := 1,
               freezeUpdateInterval := 1\<rparr>)
            (exampleObject\<lparr>obj_labels := obj_labels exampleObject @ [''status/in-progress''],
               obj_lastModification := None\<rparr>))
       = Some (milestoneNeedsApproval, {''warnUnapproved'', ''summarizeLabels''})"
proof -
  let ?o1 = "exampleObject\<lparr>obj_labels := []\<rparr>"
  have g: "gracePeriodRemaining obj bn l gp 108000000000000 False 108000000000000
      = (Some gp, True)" if "\<not> HasLabel obj l" and "0 \<le> sint gp" for obj bn l and gp :: duration
  proof -
    have "- timeSub 108000000000000 (108000000000000 + sint gp) = gp"
      using that(2) sint_lt [of gp] sint_ge [of gp]
      by (simp add: timeSub_def maxDuration_def minDuration_def)
    then show ?thesis using that(1)
      by (simp add: gracePeriodRemaining_def gracePeriodStart_def since_def timeAdd_def)
  qed
  have e1: "snd (snd (snd (checkLabels (obj_labels ?o1)))) \<noteq> []"
    by (simp add: checkLabels_unfold example_simps label_evaluation)
  obtain k p s errs where c1: "checkLabels (obj_labels ?o1) = (k, p, s, errs)"
      and n1: "errs \<noteq> []"
    using e1 by (cases "checkLabels (obj_labels ?o1)") auto
  have r1: "map_option (\<lambda>i. (state i, enabledSections i))
         (issueChangeConfig exampleEnv exampleClock exampleMaintainer ?o1)
       = Some (milestoneNeedsLabeling, {''warnIncompleteLabels''})"
    unfolding issueChangeConfig_invalid_outcome [OF c1 n1]
    by (simp add: example_simps label_evaluation g exampleMaintainer_def
        milestoneLabelsIncompleteLabel_def)
  have e2: "snd (snd (snd (checkLabels (obj_labels exampleObject)))) = []"
    and a2: "\<not> HasLabel exampleObject statusApprovedLabel"
    by (simp_all add: checkLabels_unfold exampleObject_def label_evaluation)
  obtain k' p' s' where c2: "checkLabels (obj_labels exampleObject) = (k', p', s', [])"
    using e2 by (cases "checkLabels (obj_labels exampleObject)") auto
  have r2: "map_option (\<lambda>i. (state i, enabledSections i))
         (issueChangeConfig exampleEnv exampleClock exampleMaintainer exampleObject)
       = Some (milestoneNeedsApproval, {''warnUnapproved'', ''summarizeLabels''})"
    unfolding issueChangeConfig_unapproved_outcome [OF c2 a2]
    by (simp add: example_simps exampleObject_def label_evaluation g exampleMaintainer_def
        exampleClock_def milestoneNeedsApprovalLabel_def)
  note inst1 = resolution_order [of ?o1 exampleEnv exampleClock exampleMaintainer]
  note inst2 = resolution_order [of exampleObject exampleEnv exampleClock exampleMaintainer]
  have i1: "map_option (\<lambda>i. (state i, enabledSections i))
         (issueChangeConfig exampleEnv (exampleClock\<lparr>nowUpdate := 0\<rparr>)
            (exampleMaintainer\<lparr>mode := milestoneModeFreeze, slushUpdateInterval := 1,
               freezeUpdateInterval := 1\<rparr>)
            (?o1\<lparr>obj_labels := [''status/approved-for-milestone''],
               obj_lastModification := None\<rparr>))
       = map_option (\<lambda>i. (state i, enabledSections i))
         (issueChangeConfig exampleEnv exampleClock exampleMaintainer ?o1)"
    using inst1 e1 by (simp add: example_simps label_evaluation)
  have i2: "map_option (\<lambda>i. (state i, enabledSections i))
         (issueChangeConfig exampleEnv (exampleClock\<lparr>nowUpdate := 0\<rparr>)
            (exampleMaintainer\<lparr>mode := milestoneModeFreeze, slushUpdateInterval := 1,
               freezeUpdateInterval := 1\<rparr>)
            (exampleObject\<lparr>obj_labels := obj_labels exampleObject @ [''status/in-progress''],
               obj_lastModification := None\<rparr>))
       = map_option (\<lambda>i. (state i, enabledSections i))
         (issueChangeConfig exampleEnv exampleClock exampleMaintainer exampleObject)"
    using inst2 e2 a2 by (simp add: label_evaluation)
  from e1 r1 i1 e2 a2 r2 i2 show ?thesis by simp
qed

subsection \<open>Indeterminate grace-period start\<close>

lemma gracePeriodRemaining_indeterminate:
  assumes "gracePeriodStart obj bn l d = None"
  shows "gracePeriodRemaining obj bn l gp d False now = (None, False)"
  using assms by (simp add: gracePeriodRemaining_def)

lemma gracePeriodStart_no_event:
  assumes "HasLabel obj l"
    and "\<And>evs. obj_events obj = Some evs \<Longrightarrow> filter (labelMatcher l bn) evs = []"
  shows "gracePeriodStart obj bn l d = None"
  using assms
  by (simp add: gracePeriodStart_def labelLastCreatedAt_def GetLast_def split: option.splits)

lemma issueChangeConfig_indeterminate_labels:
  assumes "snd (snd (snd (checkLabels (obj_labels obj)))) \<noteq> []"
    and "\<not> HasLabel obj blockerLabel"
    and "gracePeriodStart obj (botName m) milestoneLabelsIncompleteLabel (nowDefaultStart clk)
           = None"
  shows "issueChangeConfig e clk m obj = None"
proof -
  obtain k p s errs where c: "checkLabels (obj_labels obj) = (k, p, s, errs)" and n: "errs \<noteq> []"
    using assms(1) by (cases "checkLabels (obj_labels obj)") auto
  show ?thesis
    using assms(2) gracePeriodRemaining_indeterminate [OF assms(3)]
    by (simp add: issueChangeConfig_invalid [OF c n])
qed

lemma issueChangeConfig_indeterminate_approval:
  assumes "snd (snd (snd (checkLabels (obj_labels obj)))) = []"
    and "\<not> HasLabel obj statusApprovedLabel"
    and "\<not> HasLabel obj blockerLabel"
    and "gracePeriodStart obj (botName m) milestoneNeedsApprovalLabel (nowDefaultStart clk)
           = None"
  shows "issueChangeConfig e clk m obj = None"
proof -
  obtain k p s where c: "checkLabels (obj_labels obj) = (k, p, s, [])"
    using assms(1) by (cases "checkLabels (obj_labels obj)") auto
  show ?thesis
    using assms(3) gracePeriodRemaining_indeterminate [OF assms(4)]
    by (simp add: issueChangeConfig_unapproved [OF c assms(2)])
qed

lemma no_config_no_action:
  assumes "issueChangeConfig e clk m obj = None"
  shows "issueChange e clk m obj = None" and "Munge e clk m obj = []"
  using assms by (simp_all add: issueChange_def Munge_def)

text \<open>
  Claim C7.  A failed event lookup on an item that carries the state label leaves the
  grace-period start undetermined, and an undetermined start makes
  \<^verbatim>\<open>gracePeriodRemaining\<close> report failure instead of using the default.  Where the
  resolver consults the grace period (a non-blocker with label errors, or a
  non-blocker with valid labels and no approval), an undetermined start makes
  \<^verbatim>\<open>issueChangeConfig\<close> and \<^verbatim>\<open>issueChange\<close> return nil and \<^verbatim>\<open>Munge\<close> perform no mutation.
\<close>

theorem indeterminate_start_no_action:
  "(obj_events obj = None \<and> HasLabel obj l \<longrightarrow> gracePeriodStart obj bn l d = None)
   \<and> (gracePeriodStart obj bn l d = None
        \<longrightarrow> gracePeriodRemaining obj bn l gp d False now = (None, False))
   \<and> (\<not> HasLabel obj blockerLabel
        \<and> snd (snd (snd (checkLabels (obj_labels obj)))) \<noteq> []
        \<and> gracePeriodStart obj (botName m) milestoneLabelsIncompleteLabel
             (nowDefaultStart clk) = None
        \<longrightarrow> issueChangeConfig e clk m obj = None \<and> issueChange e clk m obj = None
            \<and> Munge e clk m obj = [])
   \<and> (\<not> HasLabel obj blockerLabel
        \<and> snd (snd (snd (checkLabels (obj_labels obj)))) = []
        \<and> \<not> HasLabel obj statusApprovedLabel
        \<and> gracePeriodStart obj (botName m) milestoneNeedsApprovalLabel
             (nowDefaultStart clk) = None
        \<longrightarrow> issueChangeConfig e clk m obj = None \<and> issueChange e clk m obj = None
            \<and> Munge e clk m obj = [])"
proof (intro conjI impI)
  assume "obj_events obj = None \<and> HasLabel obj l"
  then show "gracePeriodStart obj bn l d = None"
    by (simp add: gracePeriodStart_def labelLastCreatedAt_def)
next
  assume "gracePeriodStart obj bn l d = None"
  then show "gracePeriodRemaining obj bn l gp d False now = (None, False)"
    by (rule gracePeriodRemaining_indeterminate)
next
  assume h: "\<not> HasLabel obj blockerLabel
        \<and> snd (snd (snd (checkLabels (obj_labels obj)))) \<noteq> []
        \<and> gracePeriodStart obj (botName m) milestoneLabelsIncompleteLabel
             (nowDefaultStart clk) = None"
  then have n: "issueChangeConfig e clk m obj = None"
    by (intro issueChangeConfig_indeterminate_labels) simp_all
  show "issueChangeConfig e clk m obj = None" by (rule n)
  show "issueChange e clk m obj = None" by (rule no_config_no_action(1) [OF n])
  show "Munge e clk m obj = []" by (rule no_config_no_action(2) [OF n])
next
  assume h: "\<not> HasLabel obj blockerLabel
        \<and> snd (snd (snd (checkLabels (obj_labels obj)))) = []
        \<and> \<not> HasLabel obj statusApprovedLabel
        \<and> gracePeriodStart obj (botName m) milestoneNeedsApprovalLabel
             (nowDefaultStart clk) = None"
  then have n: "issueChangeConfig e clk m obj = None"
    by (intro issueChangeConfig_indeterminate_approval) simp_all
  show "issueChangeConfig e clk m obj = None" by (rule n)
  show "issueChange e clk m obj = None" by (rule no_config_no_action(1) [OF n])
  show "Munge e clk m obj = []" by (rule no_config_no_action(2) [OF n])
qed

theorem indeterminate_start_no_action_witness:
  "\<not> ignoreObject
        (exampleObject\<lparr>obj_labels := [''milestone/incomplete-labels''], obj_events := None\<rparr>)
        (activeMilestone exampleMaintainer)
   \<and> gracePeriodStart
      (exampleObject\<lparr>obj_labels := [''milestone/incomplete-labels''], obj_events := None\<rparr>)
      (botName exampleMaintainer) milestoneLabelsIncompleteLabel
      (nowDefaultStart exampleClock) = None
   \<and> issueChange exampleEnv exampleClock exampleMaintainer
       (exampleObject\<lparr>obj_labels := [''milestone/incomplete-labels''], obj_events := None\<rparr>)
     = None
   \<and> Munge exampleEnv exampleClock exampleMaintainer
       (exampleObject\<lparr>obj_labels := [''milestone/incomplete-labels''], obj_events := None\<rparr>)
     = []
   \<and> Munge exampleEnv exampleClock exampleMaintainer
       (exampleObject\<lparr>obj_labels := [''kind/bug'', ''priority/important-soon'', ''sig/api'',
          ''milestone/needs-approval''], obj_events := None\<rparr>)
     = []"
  using indeterminate_start_no_action [of
      "exampleObject\<lparr>obj_labels := [''milestone/incomplete-labels''], obj_events := None\<rparr>"
      milestoneLabelsIncompleteLabel "botName exampleMaintainer" "nowDefaultStart exampleClock"
      0 0 exampleMaintainer exampleClock exampleEnv]
    indeterminate_start_no_action [of
      "exampleObject\<lparr>obj_labels := [''kind/bug'', ''priority/important-soon'', ''sig/api'',
          ''milestone/needs-approval''], obj_events := None\<rparr>"
      milestoneNeedsApprovalLabel "botName exampleMaintainer" "nowDefaultStart exampleClock"
      0 0 exampleMaintainer exampleClock exampleEnv]
  by (simp add: checkLabels_unfold label_evaluation milestoneLabelsIncompleteLabel_def
      milestoneNeedsApprovalLabel_def ignoreObject_def exampleObject_def exampleMaintainer_def)

text \<open>
  Claim C10.  \<^verbatim>\<open>gracePeriodStart\<close> returns the default start when the state label is
  absent; when the label is present it returns what \<^verbatim>\<open>labelLastCreatedAt\<close> finds, which
  does not depend on the default.  With the label present and no add-label event for
  it by the bot, the start is nil, \<^verbatim>\<open>gracePeriodRemaining\<close> reports failure, and where
  the resolver consults this grace period (a non-blocker with label errors, or with
  valid labels and no approval) the cycle performs no mutation.
\<close>

theorem default_start_only_without_label:
  "(\<not> HasLabel obj l \<longrightarrow> gracePeriodStart obj bn l d = Some d)
   \<and> (HasLabel obj l \<longrightarrow> gracePeriodStart obj bn l d = labelLastCreatedAt obj bn l)
   \<and> (HasLabel obj l \<and> (\<forall>evs. obj_events obj = Some evs \<longrightarrow> filter (labelMatcher l bn) evs = [])
        \<longrightarrow> gracePeriodStart obj bn l d = None
            \<and> gracePeriodRemaining obj bn l gp d False now = (None, False))
   \<and> (\<not> HasLabel obj blockerLabel
        \<and> snd (snd (snd (checkLabels (obj_labels obj)))) \<noteq> []
        \<and> HasLabel obj milestoneLabelsIncompleteLabel
        \<and> (\<forall>evs. obj_events obj = Some evs
              \<longrightarrow> filter (labelMatcher milestoneLabelsIncompleteLabel (botName m)) evs = [])
        \<longrightarrow> issueChange e clk m obj = None \<and> Munge e clk m obj = [])
   \<and> (\<not> HasLabel obj blockerLabel
        \<and> snd (snd (snd (checkLabels (obj_labels obj)))) = []
        \<and> \<not> HasLabel obj statusApprovedLabel
        \<and> HasLabel obj milestoneNeedsApprovalLabel
        \<and> (\<forall>evs. obj_events obj = Some evs
              \<longrightarrow> filter (labelMatcher milestoneNeedsApprovalLabel (botName m)) evs = [])
        \<longrightarrow> issueChange e clk m obj = None \<and> Munge e clk m obj = [])"
proof (intro conjI impI)
  assume "\<not> HasLabel obj l"
  then show "gracePeriodStart obj bn l d = Some d" by (simp add: gracePeriodStart_def)
next
  assume "HasLabel obj l"
  then show "gracePeriodStart obj bn l d = labelLastCreatedAt obj bn l"
    by (simp add: gracePeriodStart_def)
next
  assume h: "HasLabel obj l
     \<and> (\<forall>evs. obj_events obj = Some evs \<longrightarrow> filter (labelMatcher l bn) evs = [])"
  then show s: "gracePeriodStart obj bn l d = None"
    by (intro gracePeriodStart_no_event) simp_all
  show "gracePeriodRemaining obj bn l gp d False now = (None, False)"
    by (rule gracePeriodRemaining_indeterminate [OF s])
next
  assume h: "\<not> HasLabel obj blockerLabel
        \<and> snd (snd (snd (checkLabels (obj_labels obj)))) \<noteq> []
        \<and> HasLabel obj milestoneLabelsIncompleteLabel
        \<and> (\<forall>evs. obj_events obj = Some evs
              \<longrightarrow> filter (labelMatcher milestoneLabelsIncompleteLabel (botName m)) evs = [])"
  then have "gracePeriodStart obj (botName m) milestoneLabelsIncompleteLabel
      (nowDefaultStart clk) = None"
    by (intro gracePeriodStart_no_event) simp_all
  with h have n: "issueChangeConfig e clk m obj = None"
    by (intro issueChangeConfig_indeterminate_labels) simp_all
  show "issueChange e clk m obj = None" by (rule no_config_no_action(1) [OF n])
  show "Munge e clk m obj = []" by (rule no_config_no_action(2) [OF n])
next
  assume h: "\<not> HasLabel obj blockerLabel
        \<and> snd (snd (snd (checkLabels (obj_labels obj)))) = []
        \<and> \<not> HasLabel obj statusApprovedLabel
        \<and> HasLabel obj milestoneNeedsApprovalLabel
        \<and> (\<forall>evs. obj_events obj = Some evs
              \<longrightarrow> filter (labelMatcher milestoneNeedsApprovalLabel (botName m)) evs = [])"
  then have "gracePeriodStart obj (botName m) milestoneNeedsApprovalLabel
      (nowDefaultStart clk) = None"
    by (intro gracePeriodStart_no_event) simp_all
  with h have n: "issueChangeConfig e clk m obj = None"
    by (intro issueChangeConfig_indeterminate_approval) simp_all
  show "issueChange e clk m obj = None" by (rule no_config_no_action(1) [OF n])
  show "Munge e clk m obj = []" by (rule no_config_no_action(2) [OF n])
qed

theorem default_start_only_without_label_witness:
  "gracePeriodStart exampleObject ''k8s-merge-robot'' milestoneNeedsApprovalLabel 7 = Some 7
   \<and> gracePeriodStart
       (exampleObject\<lparr>obj_labels := [''milestone/incomplete-labels''],
          obj_events := Some [\<lparr>evAddLabel = True, evLabelName = ''milestone/incomplete-labels'',
             evActor = ''someone-else'', evCreatedAt = Some 5\<rparr>]\<rparr>)
       ''k8s-merge-robot'' milestoneLabelsIncompleteLabel 7 = None
   \<and> Munge exampleEnv exampleClock exampleMaintainer
       (exampleObject\<lparr>obj_labels := [''milestone/incomplete-labels''],
          obj_events := Some [\<lparr>evAddLabel = True, evLabelName = ''milestone/incomplete-labels'',
             evActor = ''someone-else'', evCreatedAt = Some 5\<rparr>]\<rparr>) = []
   \<and> Munge exampleEnv exampleClock exampleMaintainer
       (exampleObject\<lparr>obj_labels := [''kind/bug'', ''priority/important-soon'', ''sig/api'',
          ''milestone/needs-approval'']\<rparr>) = []"
  using default_start_only_without_label [of exampleObject milestoneNeedsApprovalLabel
      "''k8s-merge-robot''" 7 0 0 exampleMaintainer exampleEnv exampleClock]
    default_start_only_without_label [of
      "exampleObject\<lparr>obj_labels := [''milestone/incomplete-labels''],
          obj_events := Some [\<lparr>evAddLabel = True, evLabelName = ''milestone/incomplete-labels'',
             evActor = ''someone-else'', evCreatedAt = Some 5\<rparr>]\<rparr>"
      milestoneLabelsIncompleteLabel "''k8s-merge-robot''" 7 0 0 exampleMaintainer exampleEnv
      exampleClock]
    default_start_only_without_label [of
      "exampleObject\<lparr>obj_labels := [''kind/bug'', ''priority/important-soon'', ''sig/api'',
          ''milestone/needs-approval'']\<rparr>"
      milestoneNeedsApprovalLabel "''k8s-merge-robot''" 7 0 0 exampleMaintainer exampleEnv
      exampleClock]
  by (simp add: checkLabels_unfold label_evaluation milestoneLabelsIncompleteLabel_def
      milestoneNeedsApprovalLabel_def exampleObject_def exampleMaintainer_def labelMatcher_def
      labelLastCreatedAt_def GetLast_def)

subsection \<open>The mutation trace of a cycle\<close>

lemma removeOtherStateLabels_trace:
  "\<exists>ext. snd (snd (removeOtherStateLabels e ln sls obj tr)) = tr @ ext
         \<and> (\<forall>x\<in>set ext. isLabelAction (fst x))
         \<and> (fst (removeOtherStateLabels e ln sls obj tr) \<longrightarrow> (\<forall>x\<in>set ext. snd x))"
proof (induction sls arbitrary: obj tr)
  case Nil
  then show ?case by simp
next
  case (Cons sl sls)
  show ?case
  proof (cases "sl \<noteq> ln \<and> HasLabel obj sl")
    case False
    then show ?thesis using Cons.IH [of obj tr] by auto
  next
    case True
    show ?thesis
    proof (cases "fails e (RemoveLabel sl)")
      case f: True
      with True show ?thesis by simp
    next
      case f: False
      let ?obj = "obj\<lparr>obj_labels := filter (\<lambda>l. l \<noteq> sl) (obj_labels obj)\<rparr>"
      obtain ext where x: "snd (snd (removeOtherStateLabels e ln sls ?obj
              (tr @ [(RemoveLabel sl, True)]))) = (tr @ [(RemoveLabel sl, True)]) @ ext"
          "\<forall>x\<in>set ext. isLabelAction (fst x)"
          "fst (removeOtherStateLabels e ln sls ?obj (tr @ [(RemoveLabel sl, True)]))
             \<longrightarrow> (\<forall>x\<in>set ext. snd x)"
        using Cons.IH [of ?obj "tr @ [(RemoveLabel sl, True)]"] by blast
      have "snd (snd (removeOtherStateLabels e ln (sl # sls) obj tr))
          = tr @ ((RemoveLabel sl, True) # ext)"
        using True f x(1) by simp
      moreover have "\<forall>x\<in>set ((RemoveLabel sl, True) # ext). isLabelAction (fst x)"
        using x(2) by simp
      moreover have "fst (removeOtherStateLabels e ln (sl # sls) obj tr)
          \<longrightarrow> (\<forall>x\<in>set ((RemoveLabel sl, True) # ext). snd x)"
        using True f x(3) by simp
      ultimately show ?thesis by blast
    qed
  qed
qed

lemma removeOtherStateLabels_comments:
  "obj_comments (fst (snd (removeOtherStateLabels e ln sls obj tr))) = obj_comments obj"
  by (induction sls arbitrary: obj tr) simp_all

lemma updateMilestoneStateLabel_trace:
  "(\<forall>x\<in>set (snd (snd (updateMilestoneStateLabel e obj ln))). isLabelAction (fst x))
   \<and> (fst (updateMilestoneStateLabel e obj ln)
        \<longrightarrow> (\<forall>x\<in>set (snd (snd (updateMilestoneStateLabel e obj ln))). snd x))"
proof (cases "length ln > 0 \<and> \<not> HasLabel obj ln")
  case False
  then show ?thesis
    using removeOtherStateLabels_trace [of e ln milestoneStateLabels obj "[]"]
    by (auto simp add: updateMilestoneStateLabel_def)
next
  case True
  show ?thesis
  proof (cases "fails e (AddLabel ln)")
    case f: True
    with True show ?thesis by (simp add: updateMilestoneStateLabel_def)
  next
    case f: False
    then show ?thesis
      using True removeOtherStateLabels_trace [of e ln milestoneStateLabels
          "obj\<lparr>obj_labels := obj_labels obj @ [ln]\<rparr>" "[(AddLabel ln, True)]"]
      by (auto simp add: updateMilestoneStateLabel_def)
  qed
qed

lemma updateMilestoneStateLabel_comments:
  "obj_comments (fst (snd (updateMilestoneStateLabel e obj ln))) = obj_comments obj"
  by (simp add: updateMilestoneStateLabel_def removeOtherStateLabels_comments)


lemma latestNotificationComment_after_labels:
  "latestNotificationComment e (fst (snd (updateMilestoneStateLabel e' obj ln))) bn
     = latestNotificationComment e obj bn"
  by (simp add: latestNotificationComment_def updateMilestoneStateLabel_comments)

text \<open>
  \<^verbatim>\<open>Munge\<close> past the two nil checks, with the results of the label step named.
\<close>

lemma Munge_unfold:
  assumes "\<not> ignoreObject obj (activeMilestone m)"
    and "issueChange e clk m obj = Some change"
  shows "Munge e clk m obj =
     (let tr1 = snd (snd (updateMilestoneStateLabel e obj (label change)))
      in if \<not> fst (updateMilestoneStateLabel e obj (label change)) then tr1
         else case latestNotificationComment e obj (botName m) of
                (cmt, ok') \<Rightarrow>
                  if \<not> ok' then tr1
                  else if \<not> notificationIsCurrent e (notification change) cmt
                              (commentInterval change) (nowComment clk)
                  then (if \<not> fst (replaceComment e (notification change) cmt tr1)
                        then snd (replaceComment e (notification change) cmt tr1)
                        else if removeFromMilestone change
                        then snd (replaceComment e (notification change) cmt tr1)
                             @ [(ClearMilestone, \<not> fails e ClearMilestone)]
                        else snd (replaceComment e (notification change) cmt tr1))
                  else if removeFromMilestone change
                  then tr1 @ [(ClearMilestone, \<not> fails e ClearMilestone)]
                  else tr1)"
proof -
  obtain ok obj1 tr1 where u: "updateMilestoneStateLabel e obj (label change) = (ok, obj1, tr1)"
    by (cases "updateMilestoneStateLabel e obj (label change)")
  have l: "latestNotificationComment e obj1 (botName m)
      = latestNotificationComment e obj (botName m)"
    using latestNotificationComment_after_labels [of e e obj "label change" "botName m"] u
    by simp
  show ?thesis
    using assms
    by (simp add: Munge_def u l Let_def split: prod.splits)
qed


lemma clear_is_neither:
  "isLabelAction a \<Longrightarrow> a \<noteq> ClearMilestone" "isCommentAction a \<Longrightarrow> a \<noteq> ClearMilestone"
  "isLabelAction a \<Longrightarrow> \<not> isCommentAction a"
  by (cases a; simp)+



subsection \<open>The arguments of the rendered message\<close>

lemmas state_defs =
  milestoneCurrent_def milestoneNeedsLabeling_def milestoneNeedsApproval_def
  milestoneNeedsAttention_def milestoneNeedsRemoval_def

lemma arguments_simps:
  "templateArguments (enableSection icc n) = templateArguments icc"
  "templateArguments (removeUnapproved icc) = templateArguments icc"
  "templateArguments (removeNonBlocker icc) = templateArguments icc"
  "templateArguments (warnMissingInProgress icc) = templateArguments icc"
  "templateArguments (warnUnapproved e icc ra am) x =
     (if x = ''unapprovedRemovalWarning''
      then Some (VString (case ra of None \<Rightarrow> []
             | Some r \<Rightarrow> '' If the label is not applied within '' @ durationToMaxDays e r
                 @ '', the issue will be moved out of the '' @ am @ '' milestone.''))
      else templateArguments icc x)"
  "templateArguments (warnUpdateRequired e icc t) x =
     (if x = ''lastUpdated'' then Some (VString (formatJan2 e t)) else templateArguments icc x)"
  "templateArguments (warnIncompleteLabels e icc ra errs am) x =
     (if x = ''labelErrors'' then Some (VStrings errs)
      else if x = ''incompleteLabelsRemovalWarning''
      then Some (VString (case ra of None \<Rightarrow> []
             | Some r \<Rightarrow> '' If the required changes are not made within ''
                 @ durationToMaxDays e r
                 @ '', the issue will be moved out of the '' @ am @ '' milestone.''))
      else templateArguments icc x)"
  "templateArguments (removeIncompleteLabels icc errs) x =
     (if x = ''labelErrors'' then Some (VStrings errs) else templateArguments icc x)"
  "templateArguments (summarizeLabels icc k p s) x =
     (if x = ''sigLabels'' then Some (VStrings (map quoteLabel s))
      else if x = ''priorityDescription'' then Some (VString (mapGet priorityMap p))
      else if x = ''priorityLabel'' then Some (VString (quoteLabel p))
      else if x = ''kindDescription'' then Some (VString (mapGet kindMap k))
      else if x = ''kindLabel'' then Some (VString (quoteLabel k))
      else templateArguments icc x)"
  by (simp_all add: enableSection_def summarizeLabels_def warnUnapproved_def
      removeUnapproved_def removeNonBlocker_def warnMissingInProgress_def
      warnUpdateRequired_def warnIncompleteLabels_def removeIncompleteLabels_def Let_def)

lemma new_arguments:
  "templateArguments (newIssueChangeConfig e m) ''summarizeLabels'' = None"
  "templateArguments (newIssueChangeConfig e m) ''labelErrors'' = None"
  "templateArguments (newIssueChangeConfig e m) ''sigLabels'' = None"
  by (simp_all add: newIssueChangeConfig_def)

lemma invalid_result_arguments:
  assumes c: "checkLabels (obj_labels obj) = (k, p, s, errs)" and n: "errs \<noteq> []"
    and r: "issueChangeConfig e clk m obj = Some icc"
  shows "messageArguments icc ''summarizeLabels'' = None
       \<and> messageArguments icc ''labelErrors'' = Some (VStrings errs)
       \<and> messageArguments icc ''sigLabels'' = None
       \<and> state icc \<noteq> milestoneCurrent"
  using r unfolding issueChangeConfig_invalid [OF c n]
  by (auto simp add: messageArguments_def state_simps sections_simps arguments_simps
      new_arguments hasPrefix_def state_defs split: prod.splits if_splits)

lemma valid_result_sections:
  assumes c: "checkLabels (obj_labels obj) = (k, p, s, [])"
  shows "case issueChangeConfig e clk m obj of
           None \<Rightarrow> True
         | Some icc \<Rightarrow>
             ''summarizeLabels'' \<in> enabledSections icc
             \<and> enabledSections icc \<subseteq> {''summarizeLabels'', ''warnUnapproved'',
                  ''removeUnapproved'', ''removeNonBlocker'', ''warnMissingInProgress'',
                  ''warnNonBlockerRemoval'', ''warnUpdateRequired'', ''warnUpdateInterval''}"
proof (cases "HasLabel obj statusApprovedLabel")
  case False
  show ?thesis
    unfolding issueChangeConfig_unapproved [OF c False]
    by (simp add: sections_simps split: prod.splits)
next
  case True
  show ?thesis
    unfolding issueChangeConfig_approved [OF c True] Let_def
    by (simp add: sections_simps split: option.splits)
qed


lemma valid_result_template:
  assumes c: "checkLabels (obj_labels obj) = (k, p, s, [])"
  shows "case issueChangeConfig e clk m obj of
           None \<Rightarrow> True
         | Some icc \<Rightarrow>
             templateArguments icc ''summarizeLabels'' = None
             \<and> templateArguments icc ''labelErrors'' = None
             \<and> templateArguments icc ''sigLabels'' = Some (VStrings (map quoteLabel s))
             \<and> templateArguments icc ''priorityLabel'' = Some (VString (quoteLabel p))
             \<and> templateArguments icc ''priorityDescription''
                 = Some (VString (mapGet priorityMap p))
             \<and> templateArguments icc ''kindLabel'' = Some (VString (quoteLabel k))
             \<and> templateArguments icc ''kindDescription'' = Some (VString (mapGet kindMap k))"
proof (cases "HasLabel obj statusApprovedLabel")
  case False
  show ?thesis
    unfolding issueChangeConfig_unapproved [OF c False]
    by (simp add: arguments_simps new_arguments split: prod.splits)
next
  case True
  show ?thesis
    unfolding issueChangeConfig_approved [OF c True] Let_def
    by (simp add: arguments_simps new_arguments split: option.splits)
qed

lemma valid_result_arguments:
  assumes c: "checkLabels (obj_labels obj) = (k, p, s, [])"
    and r: "issueChangeConfig e clk m obj = Some icc"
  shows "messageArguments icc ''summarizeLabels''
           = (if state icc \<noteq> milestoneNeedsRemoval then Some (VBool True) else None)"
    and "messageArguments icc ''labelErrors'' = None"
    and "messageArguments icc ''sigLabels'' = Some (VStrings (map quoteLabel s))"
    and "messageArguments icc ''priorityLabel'' = Some (VString (quoteLabel p))"
    and "messageArguments icc ''priorityDescription'' = Some (VString (mapGet priorityMap p))"
    and "messageArguments icc ''kindLabel'' = Some (VString (quoteLabel k))"
    and "messageArguments icc ''kindDescription'' = Some (VString (mapGet kindMap k))"
proof -
  have t: "templateArguments icc ''summarizeLabels'' = None"
      "templateArguments icc ''labelErrors'' = None"
      "templateArguments icc ''sigLabels'' = Some (VStrings (map quoteLabel s))"
      "templateArguments icc ''priorityLabel'' = Some (VString (quoteLabel p))"
      "templateArguments icc ''priorityDescription'' = Some (VString (mapGet priorityMap p))"
      "templateArguments icc ''kindLabel'' = Some (VString (quoteLabel k))"
      "templateArguments icc ''kindDescription'' = Some (VString (mapGet kindMap k))"
    using valid_result_template [OF c, of e clk m] r by simp_all
  have in1: "''summarizeLabels'' \<in> enabledSections icc"
    and sub: "enabledSections icc \<subseteq> {''summarizeLabels'', ''warnUnapproved'',
            ''removeUnapproved'', ''removeNonBlocker'', ''warnMissingInProgress'',
            ''warnNonBlockerRemoval'', ''warnUpdateRequired'', ''warnUpdateInterval''}"
    using valid_result_sections [OF c, of e clk m] r by simp_all
  have out: "''labelErrors'' \<notin> enabledSections icc" "''sigLabels'' \<notin> enabledSections icc"
    "''priorityLabel'' \<notin> enabledSections icc" "''priorityDescription'' \<notin> enabledSections icc"
    "''kindLabel'' \<notin> enabledSections icc" "''kindDescription'' \<notin> enabledSections icc"
    using sub by auto
  show "messageArguments icc ''summarizeLabels''
           = (if state icc \<noteq> milestoneNeedsRemoval then Some (VBool True) else None)"
    using in1 t by (simp add: messageArguments_def hasPrefix_def)
  show "messageArguments icc ''labelErrors'' = None"
    using out t by (simp add: messageArguments_def)
  show "messageArguments icc ''sigLabels'' = Some (VStrings (map quoteLabel s))"
    using out t by (simp add: messageArguments_def)
  show "messageArguments icc ''priorityLabel'' = Some (VString (quoteLabel p))"
    using out t by (simp add: messageArguments_def)
  show "messageArguments icc ''priorityDescription'' = Some (VString (mapGet priorityMap p))"
    using out t by (simp add: messageArguments_def)
  show "messageArguments icc ''kindLabel'' = Some (VString (quoteLabel k))"
    using out t by (simp add: messageArguments_def)
  show "messageArguments icc ''kindDescription'' = Some (VString (mapGet kindMap k))"
    using out t by (simp add: messageArguments_def)
qed

subsection \<open>The rendered body\<close>

lemma plain_sections_defined:
  "sectionWarnUnapproved a \<noteq> None" "sectionRemoveUnapproved a \<noteq> None"
  "sectionWarnMissingInProgress a \<noteq> None" "sectionWarnUpdateRequired a \<noteq> None"
  "sectionWarnUpdateInterval a \<noteq> None" "sectionWarnNonBlockerRemoval a \<noteq> None"
  "sectionRemoveNonBlocker a \<noteq> None"
  by (simp_all add: sectionWarnUnapproved_def sectionRemoveUnapproved_def
      sectionWarnMissingInProgress_def sectionWarnUpdateRequired_def
      sectionWarnUpdateInterval_def sectionWarnNonBlockerRemoval_def
      sectionRemoveNonBlocker_def)

lemma label_sections_defined:
  assumes "rangeOver (a ''labelErrors'') \<noteq> None"
  shows "sectionWarnIncompleteLabels a \<noteq> None" "sectionRemoveIncompleteLabels a \<noteq> None"
  using assms
  by (auto simp add: sectionWarnIncompleteLabels_def sectionRemoveIncompleteLabels_def)

lemma template_ends_with_summary:
  assumes "rangeOver (a ''labelErrors'') \<noteq> None"
    and "sectionSummarizeLabels a = Some panel"
  shows "\<exists>pre. milestoneMessageTemplate a = Some (pre @ panel)"
proof -
  obtain x1 x2 x3 x4 x5 x6 x7 where p:
    "sectionWarnUnapproved a = Some x1" "sectionRemoveUnapproved a = Some x2"
    "sectionWarnMissingInProgress a = Some x3" "sectionWarnUpdateRequired a = Some x4"
    "sectionWarnUpdateInterval a = Some x5" "sectionWarnNonBlockerRemoval a = Some x6"
    "sectionRemoveNonBlocker a = Some x7"
    using plain_sections_defined [of a] by blast
  obtain x8 x9 where l:
    "sectionWarnIncompleteLabels a = Some x8" "sectionRemoveIncompleteLabels a = Some x9"
    using label_sections_defined [of a] assms(1) by blast
  have "milestoneMessageTemplate a
      = Some ((x1 @ x2 @ x3 @ x4 @ x5 @ x6 @ x7 @ x8 @ x9) @ panel)"
    unfolding milestoneMessageTemplate_def p l assms(2) by simp
  then show ?thesis by blast
qed

lemma summary_section_value:
  "sectionSummarizeLabels a =
     (if truth (a ''summarizeLabels'') then
        (case rangeOver (a ''sigLabels'') of
           None \<Rightarrow> None
         | Some sigs \<Rightarrow>
             Some (''<details'' @ (if truth (a ''onlySummary'') then '' open'' else [])
                   @ ''>\<newline><summary>Issue Labels</summary>\<newline>\<newline>- '' @ join sigs '' ''
                   @ '': Issue will be escalated to these SIGs if needed.\<newline>- ''
                   @ printv (a ''priorityLabel'') @ '': '' @ printv (a ''priorityDescription'')
                   @ ''\<newline>- '' @ printv (a ''kindLabel'') @ '': ''
                   @ printv (a ''kindDescription'') @ ''\<newline></details>''))
      else Some [])"
  by (simp only: sectionSummarizeLabels_def)

lemma onlySummary_argument:
  "messageArguments icc ''onlySummary'' = Some (VBool (state icc = milestoneCurrent))"
  by (simp add: messageArguments_def)

text \<open>
  Claim C9, as amended.  For every resolved item the body is rendered, and it ends
  with what the summary section renders.  When the labels are valid and the state is
  not \<^verbatim>\<open>NeedsRemoval\<close>, that is the panel of the issue's labels, open exactly in
  the state \<^verbatim>\<open>Current\<close> and collapsed otherwise.  When the labels have errors, or the
  state is \<^verbatim>\<open>NeedsRemoval\<close>, the summary section renders nothing.
\<close>

theorem summary_panel_rendering:
  "issueChangeConfig e clk m obj = Some icc \<and> checkLabels (obj_labels obj) = (k, p, s, errs)
   \<longrightarrow> (\<exists>pre panel. messageBody icc = Some (pre @ panel)
          \<and> sectionSummarizeLabels (messageArguments icc) = Some panel
          \<and> (errs = [] \<and> state icc \<noteq> milestoneNeedsRemoval \<longrightarrow>
                panel = ''<details'' @ (if state icc = milestoneCurrent then '' open'' else [])
                   @ ''>\<newline><summary>Issue Labels</summary>\<newline>\<newline>- ''
                   @ join (map quoteLabel s) '' ''
                   @ '': Issue will be escalated to these SIGs if needed.\<newline>- ''
                   @ quoteLabel p @ '': '' @ mapGet priorityMap p
                   @ ''\<newline>- '' @ quoteLabel k @ '': '' @ mapGet kindMap k
                   @ ''\<newline></details>'')
          \<and> (errs \<noteq> [] \<or> state icc = milestoneNeedsRemoval \<longrightarrow> panel = []))"
proof
  assume h: "issueChangeConfig e clk m obj = Some icc
     \<and> checkLabels (obj_labels obj) = (k, p, s, errs)"
  then have r: "issueChangeConfig e clk m obj = Some icc"
    and c: "checkLabels (obj_labels obj) = (k, p, s, errs)" by simp_all
  let ?a = "messageArguments icc"
  show "\<exists>pre panel. messageBody icc = Some (pre @ panel)
          \<and> sectionSummarizeLabels ?a = Some panel
          \<and> (errs = [] \<and> state icc \<noteq> milestoneNeedsRemoval \<longrightarrow>
                panel = ''<details'' @ (if state icc = milestoneCurrent then '' open'' else [])
                   @ ''>\<newline><summary>Issue Labels</summary>\<newline>\<newline>- ''
                   @ join (map quoteLabel s) '' ''
                   @ '': Issue will be escalated to these SIGs if needed.\<newline>- ''
                   @ quoteLabel p @ '': '' @ mapGet priorityMap p
                   @ ''\<newline>- '' @ quoteLabel k @ '': '' @ mapGet kindMap k
                   @ ''\<newline></details>'')
          \<and> (errs \<noteq> [] \<or> state icc = milestoneNeedsRemoval \<longrightarrow> panel = [])"
  proof (cases "errs = []")
    case False
    have a: "?a ''summarizeLabels'' = None" "?a ''labelErrors'' = Some (VStrings errs)"
      using invalid_result_arguments [OF c False r] by simp_all
    have sec: "sectionSummarizeLabels ?a = Some []"
      unfolding summary_section_value a by simp
    have "rangeOver (?a ''labelErrors'') \<noteq> None" unfolding a by simp
    from template_ends_with_summary [OF this sec]
    obtain pre where "messageBody icc = Some (pre @ [])" by (auto simp add: messageBody_def)
    with sec False show ?thesis by blast
  next
    case True
    note c' = c [unfolded True]
    note a = valid_result_arguments [OF c' r] onlySummary_argument [of icc]
    have rng: "rangeOver (?a ''labelErrors'') \<noteq> None" unfolding a by simp
    show ?thesis
    proof (cases "state icc = milestoneNeedsRemoval")
      case rm: True
      have sec: "sectionSummarizeLabels ?a = Some []"
        unfolding summary_section_value a using rm by simp
      from template_ends_with_summary [OF rng sec]
      obtain pre where "messageBody icc = Some (pre @ [])" by (auto simp add: messageBody_def)
      with sec rm show ?thesis by blast
    next
      case rm: False
      let ?panel = "''<details'' @ (if state icc = milestoneCurrent then '' open'' else [])
                   @ ''>\<newline><summary>Issue Labels</summary>\<newline>\<newline>- ''
                   @ join (map quoteLabel s) '' ''
                   @ '': Issue will be escalated to these SIGs if needed.\<newline>- ''
                   @ quoteLabel p @ '': '' @ mapGet priorityMap p
                   @ ''\<newline>- '' @ quoteLabel k @ '': '' @ mapGet kindMap k
                   @ ''\<newline></details>''"
      have sec: "sectionSummarizeLabels ?a = Some ?panel"
        unfolding summary_section_value a using rm by simp
      from template_ends_with_summary [OF rng sec]
      obtain pre where "messageBody icc = Some (pre @ ?panel)"
        by (auto simp add: messageBody_def)
      with sec rm True show ?thesis by blast
    qed
  qed
qed

lemmas section_defs =
  sectionWarnUnapproved_def sectionRemoveUnapproved_def sectionWarnMissingInProgress_def
  sectionWarnUpdateRequired_def sectionWarnUpdateInterval_def sectionWarnNonBlockerRemoval_def
  sectionRemoveNonBlocker_def sectionWarnIncompleteLabels_def sectionRemoveIncompleteLabels_def
  sectionSummarizeLabels_def

lemma example_checks:
  "checkLabels [''priority/critical-urgent''] =
     ([], ''priority/critical-urgent'', [],
      [''_**kind**_: Must specify exactly one of `kind/bug`, `kind/cleanup` or `kind/feature`.'',
       ''_**sig owner**_: Must specify at least one label prefixed with `sig/`.''])"
  "checkLabels [''kind/bug'', ''priority/important-soon'', ''sig/api'',
      ''status/approved-for-milestone''] =
     (''kind/bug'', ''priority/important-soon'', [''sig/api''], [])"
  "checkLabels [''kind/bug'', ''priority/important-soon'', ''sig/api''] =
     (''kind/bug'', ''priority/important-soon'', [''sig/api''], [])"
  unfolding checkLabels_unfold uniqueLabelName_filter [OF kindMap_keys]
      uniqueLabelName_filter [OF priorityMap_keys] kindErrorText priorityErrorText sigErrorText
  by (simp_all add: label_evaluation)

lemma new_arguments_values:
  "templateArguments (newIssueChangeConfig e m) x =
     (if x = ''updateInterval'' then Some (VString (durationToMaxDays e (updateInterval m)))
      else if x = ''mode'' then Some (VString (mode m))
      else if x = ''milestone'' then Some (VString (activeMilestone m @ '' milestone''))
      else if x = ''labelGracePeriod''
      then Some (VString (durationToMaxDays e (labelGracePeriod m)))
      else if x = ''inProgressLabel'' then Some (VString (quoteLabel statusInProgressLabel))
      else if x = ''freezeDate'' then Some (VString (freezeDate m))
      else if x = ''blockerLabel'' then Some (VString (quoteLabel blockerLabel))
      else if x = ''approvedLabel'' then Some (VString (quoteLabel statusApprovedLabel))
      else if x = ''approvalGracePeriod''
      then Some (VString (durationToMaxDays e (approvalGracePeriod m)))
      else None)"
  by (simp add: newIssueChangeConfig_def)

lemmas render_simps =
  messageBody_def milestoneMessageTemplate_def section_defs messageArguments_def state_simps
  sections_simps arguments_simps new_arguments_values hasPrefix_def state_defs quoteLabel_def
  mapGet_def label_evaluation

text \<open>
  The claim as stated fails: a blocker with label errors resolves to \<^verbatim>\<open>NeedsLabeling\<close>
  and a valid, approved non-blocker in freeze mode to \<^verbatim>\<open>NeedsRemoval\<close>; neither body
  has the panel.
\<close>

theorem summary_panel_counterexample:
  "map_option state (issueChangeConfig exampleEnv exampleClock exampleMaintainer
       (exampleObject\<lparr>obj_labels := [''priority/critical-urgent'']\<rparr>))
     = Some milestoneNeedsLabeling
   \<and> map_option messageBody (issueChangeConfig exampleEnv exampleClock exampleMaintainer
       (exampleObject\<lparr>obj_labels := [''priority/critical-urgent'']\<rparr>))
     = Some (Some (''\<newline>**Action required**: This issue requires label changes.\<newline>\<newline>''
          @ ''_**kind**_: Must specify exactly one of `kind/bug`, `kind/cleanup` or `kind/feature`.\<newline>''
          @ ''_**sig owner**_: Must specify at least one label prefixed with `sig/`.\<newline>''))
   \<and> map_option state (issueChangeConfig exampleEnv exampleClock
       (exampleMaintainer\<lparr>mode := milestoneModeFreeze\<rparr>)
       (exampleObject\<lparr>obj_labels := [''kind/bug'', ''priority/important-soon'', ''sig/api'',
          ''status/approved-for-milestone'']\<rparr>))
     = Some milestoneNeedsRemoval
   \<and> map_option messageBody (issueChangeConfig exampleEnv exampleClock
       (exampleMaintainer\<lparr>mode := milestoneModeFreeze\<rparr>)
       (exampleObject\<lparr>obj_labels := [''kind/bug'', ''priority/important-soon'', ''sig/api'',
          ''status/approved-for-milestone'']\<rparr>))
     = Some (Some (''\<newline>**Important**: Code freeze is in effect and only issues with ''
          @ ''`priority/critical-urgent` may remain in the v1.9 milestone.\<newline>''))"
proof -
  let ?o1 = "exampleObject\<lparr>obj_labels := [''priority/critical-urgent'']\<rparr>"
  let ?o2 = "exampleObject\<lparr>obj_labels := [''kind/bug'', ''priority/important-soon'',
      ''sig/api'', ''status/approved-for-milestone'']\<rparr>"
  have c1: "checkLabels (obj_labels ?o1) =
     ([], ''priority/critical-urgent'', [],
      [''_**kind**_: Must specify exactly one of `kind/bug`, `kind/cleanup` or `kind/feature`.'',
       ''_**sig owner**_: Must specify at least one label prefixed with `sig/`.''])"
    by (simp add: example_simps example_checks)
  have r1: "issueChangeConfig exampleEnv exampleClock exampleMaintainer ?o1
      = Some (warnIncompleteLabels exampleEnv
                (newIssueChangeConfig exampleEnv exampleMaintainer) None
                [''_**kind**_: Must specify exactly one of `kind/bug`, `kind/cleanup` or `kind/feature`.'',
                 ''_**sig owner**_: Must specify at least one label prefixed with `sig/`.'']
                (activeMilestone exampleMaintainer))"
    by (simp add: issueChangeConfig_invalid [OF c1] label_evaluation example_simps
        gracePeriodRemaining_blocker)
  have c2: "checkLabels (obj_labels ?o2)
      = (''kind/bug'', ''priority/important-soon'', [''sig/api''], [])"
    by (simp add: example_simps example_checks)
  have a2: "HasLabel ?o2 statusApprovedLabel"
    by (simp add: label_evaluation example_simps)
  have r2: "issueChangeConfig exampleEnv exampleClock
        (exampleMaintainer\<lparr>mode := milestoneModeFreeze\<rparr>) ?o2
      = Some (removeNonBlocker (summarizeLabels
                (newIssueChangeConfig exampleEnv (exampleMaintainer\<lparr>mode := milestoneModeFreeze\<rparr>))
                ''kind/bug'' ''priority/important-soon'' [''sig/api'']))"
    using modes_distinct
    by (simp add: issueChangeConfig_approved [OF c2 a2] Let_def label_evaluation example_simps)
  show ?thesis
    unfolding r1 r2
    by (simp add: render_simps exampleMaintainer_def)
qed


lemma gracePeriodRemaining_fresh:
  assumes "\<not> HasLabel obj l" and "0 \<le> sint gp"
  shows "gracePeriodRemaining obj bn l gp t False t = (Some gp, True)"
proof -
  have "timeSub t (t + sint gp) = word_of_int (- sint gp)"
    using assms(2) sint_lt [of gp] by (simp add: timeSub_def maxDuration_def minDuration_def)
  then have "- timeSub t (t + sint gp) = gp" by simp
  then show ?thesis using assms(1)
    by (simp add: gracePeriodRemaining_def gracePeriodStart_def since_def timeAdd_def)
qed

theorem summary_panel_rendering_witness:
  "(\<exists>pre. map_option messageBody
        (issueChangeConfig exampleEnv exampleClock exampleMaintainer exampleObject)
      = Some (Some (pre @ ''<details>\<newline><summary>Issue Labels</summary>\<newline>\<newline>''
          @ ''- `sig/api`: Issue will be escalated to these SIGs if needed.\<newline>''
          @ ''- `priority/important-soon`: Escalate to the issue owners and SIG owner; move out of milestone after several unsuccessful escalation attempts.\<newline>''
          @ ''- `kind/bug`: Fixes a bug discovered during the current release.\<newline></details>'')))
   \<and> (\<exists>pre. map_option messageBody
        (issueChangeConfig exampleEnv exampleClock exampleMaintainer
           (exampleObject\<lparr>obj_labels := [''kind/bug'', ''priority/important-soon'',
              ''sig/api'', ''status/approved-for-milestone'']\<rparr>))
      = Some (Some (pre @ ''<details open>\<newline><summary>Issue Labels</summary>\<newline>\<newline>''
          @ ''- `sig/api`: Issue will be escalated to these SIGs if needed.\<newline>''
          @ ''- `priority/important-soon`: Escalate to the issue owners and SIG owner; move out of milestone after several unsuccessful escalation attempts.\<newline>''
          @ ''- `kind/bug`: Fixes a bug discovered during the current release.\<newline></details>'')))"
proof (intro conjI)
  let ?k = "''kind/bug''" and ?p = "''priority/important-soon''" and ?s = "[''sig/api'']"
  have c1: "checkLabels (obj_labels exampleObject) = (?k, ?p, ?s, [])"
    by (simp add: exampleObject_def example_checks)
  have a1: "\<not> HasLabel exampleObject statusApprovedLabel"
    by (simp add: label_evaluation exampleObject_def)
  let ?i1 = "warnUnapproved exampleEnv
      (summarizeLabels (newIssueChangeConfig exampleEnv exampleMaintainer) ?k ?p ?s)
      (Some (approvalGracePeriod exampleMaintainer)) (activeMilestone exampleMaintainer)"
  have g1: "gracePeriodRemaining exampleObject (botName exampleMaintainer)
      milestoneNeedsApprovalLabel (approvalGracePeriod exampleMaintainer)
      (nowDefaultStart exampleClock) False (nowGrace exampleClock)
      = (Some (approvalGracePeriod exampleMaintainer), True)"
    unfolding example_simps
    by (rule gracePeriodRemaining_fresh)
      (simp_all add: label_evaluation exampleObject_def exampleMaintainer_def
        milestoneNeedsApprovalLabel_def)
  have r1: "issueChangeConfig exampleEnv exampleClock exampleMaintainer exampleObject = Some ?i1"
    unfolding issueChangeConfig_unapproved [OF c1 a1] g1
    by (simp add: label_evaluation exampleObject_def exampleMaintainer_def)
  have s1: "state ?i1 \<noteq> milestoneNeedsRemoval" "state ?i1 \<noteq> milestoneCurrent"
    by (simp_all add: state_simps state_defs)
  from summary_panel_rendering [of exampleEnv exampleClock exampleMaintainer exampleObject
      ?i1 ?k ?p ?s "[]"] r1 c1 s1
  show "\<exists>pre. map_option messageBody
        (issueChangeConfig exampleEnv exampleClock exampleMaintainer exampleObject)
      = Some (Some (pre @ ''<details>\<newline><summary>Issue Labels</summary>\<newline>\<newline>''
          @ ''- `sig/api`: Issue will be escalated to these SIGs if needed.\<newline>''
          @ ''- `priority/important-soon`: Escalate to the issue owners and SIG owner; move out of milestone after several unsuccessful escalation attempts.\<newline>''
          @ ''- `kind/bug`: Fixes a bug discovered during the current release.\<newline></details>''))"
    by (auto simp add: quoteLabel_def mapGet_def kindMap_def priorityMap_def blockerLabel_def)
next
  let ?k = "''kind/bug''" and ?p = "''priority/important-soon''" and ?s = "[''sig/api'']"
  let ?o2 = "exampleObject\<lparr>obj_labels := [''kind/bug'', ''priority/important-soon'',
      ''sig/api'', ''status/approved-for-milestone'']\<rparr>"
  have c2: "checkLabels (obj_labels ?o2) = (?k, ?p, ?s, [])"
    by (simp add: example_simps example_checks)
  have a2: "HasLabel ?o2 statusApprovedLabel"
    by (simp add: label_evaluation example_simps)
  let ?i2 = "summarizeLabels (newIssueChangeConfig exampleEnv exampleMaintainer) ?k ?p ?s"
  have r2: "issueChangeConfig exampleEnv exampleClock exampleMaintainer ?o2 = Some ?i2"
    by (simp add: issueChangeConfig_approved [OF c2 a2] Let_def exampleMaintainer_def)
  have s2: "state ?i2 \<noteq> milestoneNeedsRemoval" "state ?i2 = milestoneCurrent"
    by (simp_all add: state_simps state_defs)
  from summary_panel_rendering [of exampleEnv exampleClock exampleMaintainer ?o2
      ?i2 ?k ?p ?s "[]"] r2 c2 s2
  show "\<exists>pre. map_option messageBody
        (issueChangeConfig exampleEnv exampleClock exampleMaintainer ?o2)
      = Some (Some (pre @ ''<details open>\<newline><summary>Issue Labels</summary>\<newline>\<newline>''
          @ ''- `sig/api`: Issue will be escalated to these SIGs if needed.\<newline>''
          @ ''- `priority/important-soon`: Escalate to the issue owners and SIG owner; move out of milestone after several unsuccessful escalation attempts.\<newline>''
          @ ''- `kind/bug`: Fixes a bug discovered during the current release.\<newline></details>''))"
    by (auto simp add: quoteLabel_def mapGet_def kindMap_def priorityMap_def blockerLabel_def)
qed

subsection \<open>The change of a resolved item\<close>






subsection \<open>Whether the existing comment is current\<close>

lemma Munge_current_no_comment:
  assumes ic: "issueChange e clk m obj = Some change"
    and lc: "latestNotificationComment e obj (botName m) = (cmt, True)"
    and cur: "notificationIsCurrent e (notification change) cmt (commentInterval change)
                (nowComment clk)"
  shows "list_all (\<lambda>x. \<not> isCommentAction (fst x)) (Munge e clk m obj)"
proof (cases "ignoreObject obj (activeMilestone m)")
  case True
  then show ?thesis by (simp add: Munge_def)
next
  case False
  let ?tr1 = "snd (snd (updateMilestoneStateLabel e obj (label change)))"
  have lab: "\<forall>x\<in>set ?tr1. isLabelAction (fst x)"
    using updateMilestoneStateLabel_trace [of e obj "label change"] by blast
  then have nl: "\<forall>x\<in>set ?tr1. \<not> isCommentAction (fst x)"
    using clear_is_neither(3) by blast
  have "Munge e clk m obj = ?tr1 \<or> Munge e clk m obj = ?tr1 @ [(ClearMilestone, \<not> fails e ClearMilestone)]"
    unfolding Munge_unfold [OF False ic] Let_def lc prod.case using cur by simp
  then show ?thesis using nl by (auto simp add: list_all_iff)
qed

text \<open>
  Claim C4.  \<^verbatim>\<open>notificationIsCurrent\<close> holds exactly when the existing comment parses to
  a notification with the name, title and body of the new one, and either there is no
  repeat interval or the comment has a creation time and the time since then is
  strictly less than the interval.  When it holds for the latest notification comment
  of the item, the cycle calls neither \<^verbatim>\<open>DeleteComment\<close> nor \<^verbatim>\<open>Post\<close>.
\<close>

theorem notification_current:
  "(notificationIsCurrent e n cmt interval now \<longleftrightarrow>
      (\<exists>old. ParseNotification e cmt = Some old \<and> nName old = nName n
             \<and> nArguments old = nArguments n \<and> nContext old = nContext n)
      \<and> (interval = None
          \<or> (\<exists>i c created. interval = Some i \<and> cmt = Some c \<and> cCreatedAt c = Some created
                \<and> sint (since now created) < sint i)))
   \<and> (issueChange e clk m obj = Some change
        \<and> latestNotificationComment e obj (botName m) = (cmt', True)
        \<and> notificationIsCurrent e (notification change) cmt' (commentInterval change)
             (nowComment clk)
      \<longrightarrow> list_all (\<lambda>x. \<not> isCommentAction (fst x)) (Munge e clk m obj))"
proof (intro conjI impI)
  show "notificationIsCurrent e n cmt interval now \<longleftrightarrow>
      (\<exists>old. ParseNotification e cmt = Some old \<and> nName old = nName n
             \<and> nArguments old = nArguments n \<and> nContext old = nContext n)
      \<and> (interval = None
          \<or> (\<exists>i c created. interval = Some i \<and> cmt = Some c \<and> cCreatedAt c = Some created
                \<and> sint (since now created) < sint i))"
    by (auto simp add: notificationIsCurrent_def notificationEqual_def Let_def
        split: option.splits)
next
  assume "issueChange e clk m obj = Some change
        \<and> latestNotificationComment e obj (botName m) = (cmt', True)
        \<and> notificationIsCurrent e (notification change) cmt' (commentInterval change)
             (nowComment clk)"
  then show "list_all (\<lambda>x. \<not> isCommentAction (fst x)) (Munge e clk m obj)"
    using Munge_current_no_comment by blast
qed

(*NEXT*)

end
